theory Spec2Isabelle
  imports Complex_Main "HOL-Library.Monad_Syntax"
begin

section \<open>The marketplace store\<close>

text \<open>
  The server keeps users, projects, bids, escrow transactions and reviews in a
  relational store that the route handlers reach through an object-relational
  mapper. A table is the list of its rows in creation order; a row is a record
  with the columns the handlers read or write. Timestamps are left out: no
  handler decides anything by them.
\<close>

type_synonym ident = nat

datatype role = CLIENT | FREELANCER

datatype project_status = POSTED | IN_PROGRESS | COMPLETED | PAID | CANCELLED

datatype bid_status = PENDING | ACCEPTED | REJECTED

text \<open>
  The store spells the first transaction status \<open>PENDING\<close> as well; the
  constructor is \<open>T_PENDING\<close> here because bids own the plain name.
\<close>

datatype transaction_status = T_PENDING | RELEASED | REFUNDED

record user =
  u_id :: ident
  u_name :: string
  u_email :: string
  u_passwordHash :: string
  u_role :: role
  u_languages :: "string list"
  u_rating :: rat
  u_profilePicture :: "string option"

record project =
  p_id :: ident
  p_clientId :: ident
  p_title :: string
  p_description :: string
  p_sourceLanguage :: string
  p_targetLanguage :: string
  p_budget :: rat
  p_deadline :: "string option"
  p_attachedFiles :: "string list"
  p_status :: project_status

record bid =
  b_id :: ident
  b_projectId :: ident
  b_freelancerId :: ident
  b_bidAmount :: rat
  b_estimatedTime :: string
  b_status :: bid_status

record transaction =
  t_id :: ident
  t_projectId :: ident
  t_clientId :: ident
  t_freelancerId :: ident
  t_amount :: rat
  t_status :: transaction_status
  t_stripePaymentId :: "string option"

record review =
  r_id :: ident
  r_projectId :: ident
  r_reviewerId :: ident
  r_revieweeId :: ident
  r_rating :: int
  r_comment :: "string option"

record state =
  users :: "user list"
  projects :: "project list"
  bids :: "bid list"
  transactions :: "transaction list"
  reviews :: "review list"
  next_id :: ident

definition empty_store :: state where
  "empty_store =
     \<lparr>users = [], projects = [], bids = [], transactions = [], reviews = [], next_id = 0\<rparr>"

subsection \<open>Responses\<close>

text \<open>
  A handler answers \<open>res.status(c).json(payload)\<close>. \<open>Json c x\<close> is a success
  with payload \<open>x\<close>, \<open>ValidationErrors\<close> is the 400 answer
  \<open>{errors: [...]}\<close> of a request the validators refuse, and \<open>Error c msg\<close> is
  \<open>res.status(c).json({error: msg})\<close>.
\<close>

datatype 'a response = Json nat 'a | ValidationErrors | Error nat string

fun http_status :: "'a response \<Rightarrow> nat" where
  "http_status (Json c _) = c"
| "http_status ValidationErrors = 400"
| "http_status (Error c _) = c"

fun succeeded :: "'a response \<Rightarrow> bool" where
  "succeeded (Json _ _) = True"
| "succeeded _ = False"

text \<open>
  The error taxonomy of the interface: a Conflict is a violated state
  precondition, sent as status 400 with an error message; Forbidden is 403.
\<close>

fun is_conflict :: "'a response \<Rightarrow> bool" where
  "is_conflict (Error c _) = (c = 400)"
| "is_conflict _ = False"

fun is_forbidden :: "'a response \<Rightarrow> bool" where
  "is_forbidden (Error c _) = (c = 403)"
| "is_forbidden _ = False"

subsection \<open>Collaborators outside the repository\<close>

record payment_intent =
  pi_status :: string
  pi_amount :: int

text \<open>
  Password hashing, the e-mail validator and normaliser, the date validator,
  the payment processor and the JSON parser are libraries; the handlers are
  parametrised by them. \<open>stripe_retrieve\<close> and \<open>json_parse_languages\<close> give
  \<open>None\<close> where the library call throws.
\<close>

record env =
  bcrypt_hash :: "string \<Rightarrow> nat \<Rightarrow> string"
  isEmail :: "string \<Rightarrow> bool"
  normalizeEmail :: "string \<Rightarrow> string"
  isISO8601 :: "string \<Rightarrow> bool"
  stripe_retrieve :: "string \<Rightarrow> payment_intent option"
  json_parse_languages :: "string list \<Rightarrow> string list option"
  on_delete_cascade :: bool

subsection \<open>Store primitives\<close>

text \<open>
  \<open>find_by\<close> is \<open>findUnique\<close> on the key column, \<open>update_by\<close> is \<open>update\<close>:
  it throws (\<open>None\<close>) when no row has the key. \<open>update_many\<close> is
  \<open>updateMany\<close>, which never throws.
\<close>

definition find_by :: "('a \<Rightarrow> ident) \<Rightarrow> ident \<Rightarrow> 'a list \<Rightarrow> 'a option" where
  "find_by key i xs = find (\<lambda>x. key x = i) xs"

definition update_many :: "('a \<Rightarrow> bool) \<Rightarrow> ('a \<Rightarrow> 'a) \<Rightarrow> 'a list \<Rightarrow> 'a list" where
  "update_many P f xs = map (\<lambda>x. if P x then f x else x) xs"

definition update_by :: "('a \<Rightarrow> ident) \<Rightarrow> ident \<Rightarrow> ('a \<Rightarrow> 'a) \<Rightarrow> 'a list \<Rightarrow> 'a list option" where
  "update_by key i f xs =
     (if find_by key i xs = None then None else Some (update_many (\<lambda>x. key x = i) f xs))"

definition user_exists :: "state \<Rightarrow> ident \<Rightarrow> bool" where
  "user_exists s i = (find_by u_id i (users s) \<noteq> None)"

definition project_exists :: "state \<Rightarrow> ident \<Rightarrow> bool" where
  "project_exists s i = (find_by p_id i (projects s) \<noteq> None)"

subsection \<open>Validators and sanitizers\<close>

text \<open>
  The sanitizer \<open>trim\<close> strips the white space of the pattern \<open>\s\<close> at both
  ends: the space and the control characters 0x09 to 0x0D. The white space
  beyond ASCII, which is no single byte, is left out.
\<close>

definition is_space :: "char \<Rightarrow> bool" where
  "is_space c = (c = CHR '' '' \<or> c = CHR 0x09 \<or> c = CHR 0x0A \<or> c = CHR 0x0B
                 \<or> c = CHR 0x0C \<or> c = CHR 0x0D)"

definition trim :: "string \<Rightarrow> string" where
  "trim s = rev (dropWhile is_space (rev (dropWhile is_space s)))"

definition role_of_string :: "string \<Rightarrow> role option" where
  "role_of_string s =
     (if s = ''CLIENT'' then Some CLIENT
      else if s = ''FREELANCER'' then Some FREELANCER else None)"

definition status_of_string :: "string \<Rightarrow> project_status option" where
  "status_of_string s =
     (if s = ''POSTED'' then Some POSTED
      else if s = ''IN_PROGRESS'' then Some IN_PROGRESS
      else if s = ''COMPLETED'' then Some COMPLETED
      else if s = ''PAID'' then Some PAID
      else if s = ''CANCELLED'' then Some CANCELLED else None)"

text \<open>
  Modelled from the spec: the schema file (prisma/schema.prisma) is not among
  the sources, so the column defaults that the handlers rely on when they
  create a row without naming a status are taken from the data model of the
  specification: a project starts POSTED, a bid and an escrow transaction
  start PENDING, and a rating is a number from 0 to 5 that starts at 0.
\<close>

definition default_project_status :: project_status where
  "default_project_status = POSTED"

definition default_bid_status :: bid_status where
  "default_bid_status = PENDING"

definition default_transaction_status :: transaction_status where
  "default_transaction_status = T_PENDING"

definition default_rating :: rat where
  "default_rating = 0"

section \<open>Accounts\<close>

record register_body =
  rb_name :: string
  rb_email :: string
  rb_password :: string
  rb_role :: string
  rb_languages :: "string list option"

text \<open>
  POST /auth/register. The languages of the request default to the empty
  list; they are stored for a FREELANCER only.
\<close>

definition register :: "env \<Rightarrow> register_body \<Rightarrow> state \<Rightarrow> user response \<times> state" where
  "register env body s =
     (case role_of_string (rb_role body) of
        None \<Rightarrow> (ValidationErrors, s)
      | Some role \<Rightarrow>
          if \<not> (2 \<le> length (trim (rb_name body)) \<and> isEmail env (rb_email body)
                \<and> 6 \<le> length (rb_password body))
          then (ValidationErrors, s)
          else
            let name = trim (rb_name body);
                email = normalizeEmail env (rb_email body);
                languages = (case rb_languages body of None \<Rightarrow> [] | Some ls \<Rightarrow> ls)
            in if find (\<lambda>u. u_email u = email) (users s) \<noteq> None
               then (Error 400 ''User already exists with this email'', s)
               else
                 let saltRounds = 12;
                     passwordHash = bcrypt_hash env (rb_password body) saltRounds;
                     user = \<lparr>u_id = next_id s, u_name = name, u_email = email,
                             u_passwordHash = passwordHash, u_role = role,
                             u_languages = (if role = FREELANCER then languages else []),
                             u_rating = default_rating, u_profilePicture = None\<rparr>
                 in (Json 201 user,
                     s\<lparr>users := users s @ [user], next_id := Suc (next_id s)\<rparr>))"


text \<open>
  Modelled from the spec: the middleware module (middleware/auth) is not among
  the sources. By the interface section of the specification the session
  identity is a bearer token validated per request against the account store:
  \<open>authenticateToken\<close> resolves the caller to an account of the store, and
  the request is refused with 401 when there is none; \<open>requireRole\<close> refuses,
  with 403, a caller whose role is not listed. The wording of the two error
  messages is not known; no property depends on it.
\<close>

definition authenticateToken :: "state \<Rightarrow> ident \<Rightarrow> user option" where
  "authenticateToken s caller = find_by u_id caller (users s)"

definition requireRole :: "role list \<Rightarrow> user \<Rightarrow> bool" where
  "requireRole roles req_user = (u_role req_user \<in> set roles)"

definition authenticated ::
  "state \<Rightarrow> ident \<Rightarrow> role list option \<Rightarrow> (user \<Rightarrow> 'a response \<times> state) \<Rightarrow> 'a response \<times> state" where
  "authenticated s caller roles handler =
     (case authenticateToken s caller of
        None \<Rightarrow> (Error 401 ''Access token required'', s)
      | Some req_user \<Rightarrow>
          (case roles of
             None \<Rightarrow> handler req_user
           | Some rs \<Rightarrow>
               if requireRole rs req_user then handler req_user
               else (Error 403 ''Insufficient permissions'', s)))"

section \<open>Bids\<close>

text \<open>
  A numeric field of a request holds the double that \<open>parseFloat\<close> reads from
  it: the number the validator compares with its minimum and the handler
  stores. It is \<open>None\<close> when the field is missing or the validator's pattern
  refuses its text. A double is a rational; a text beyond the range of the
  doubles, which \<open>parseFloat\<close> reads as \<open>Infinity\<close>, is not modelled.
\<close>

record bid_body =
  bb_projectId :: "ident option"
  bb_bidAmount :: "rat option"
  bb_estimatedTime :: string

text \<open>
  \<open>prisma.bid.create\<close>: the row refers to its project and to its freelancer,
  so the store refuses it (\<open>None\<close>) when either is missing.
\<close>

definition bid_create ::
  "state \<Rightarrow> ident \<Rightarrow> ident \<Rightarrow> rat \<Rightarrow> string \<Rightarrow> (bid \<times> state) option" where
  "bid_create s projectId freelancerId bidAmount estimatedTime =
     (if \<not> project_exists s projectId \<or> \<not> user_exists s freelancerId then None
      else
        let bid = \<lparr>b_id = next_id s, b_projectId = projectId, b_freelancerId = freelancerId,
                   b_bidAmount = bidAmount, b_estimatedTime = estimatedTime,
                   b_status = default_bid_status\<rparr>
        in Some (bid, s\<lparr>bids := bids s @ [bid], next_id := Suc (next_id s)\<rparr>))"

text \<open>The handler of POST /bids, after the middleware has set \<open>req.user\<close>.\<close>

definition createBid :: "user \<Rightarrow> bid_body \<Rightarrow> state \<Rightarrow> bid response \<times> state" where
  "createBid req_user body s =
     (case (bb_projectId body, bb_bidAmount body) of
        (Some projectId, Some bidAmount) \<Rightarrow>
          if \<not> (1 \<le> bidAmount \<and> bb_estimatedTime body \<noteq> []) then (ValidationErrors, s)
          else
            (case find_by p_id projectId (projects s) of
               None \<Rightarrow> (Error 404 ''Project not found'', s)
             | Some project \<Rightarrow>
                 if p_status project \<noteq> POSTED
                 then (Error 400 ''Project is no longer accepting bids'', s)
                 else if p_clientId project = u_id req_user
                 then (Error 400 ''Cannot bid on your own project'', s)
                 else if find (\<lambda>b. b_projectId b = projectId \<and> b_freelancerId b = u_id req_user)
                              (bids s) \<noteq> None
                 then (Error 400 ''You have already bid on this project'', s)
                 else
                   (case bid_create s projectId (u_id req_user) bidAmount (bb_estimatedTime body) of
                      None \<Rightarrow> (Error 500 ''Failed to submit bid'', s)
                    | Some (bid, s') \<Rightarrow> (Json 201 bid, s')))
      | _ \<Rightarrow> (ValidationErrors, s))"

definition post_bids :: "ident \<Rightarrow> bid_body \<Rightarrow> state \<Rightarrow> bid response \<times> state" where
  "post_bids caller body s =
     authenticated s caller (Some [FREELANCER]) (\<lambda>req_user. createBid req_user body s)"

text \<open>
  Modelled from the spec: the schema file (prisma/schema.prisma) is not among
  the sources. The data model of the specification allows at most one escrow
  transaction per project, and the confirm-payment handler addresses a
  transaction by the compound key \<open>projectId_clientId\<close>, which the mapper
  offers only for a pair of columns the schema declares unique. So
  \<open>transaction.create\<close> refuses (\<open>None\<close>) a second row for the same project
  and client, as it refuses a row whose project, client or freelancer is
  missing.
\<close>

definition transaction_create ::
  "state \<Rightarrow> ident \<Rightarrow> ident \<Rightarrow> ident \<Rightarrow> rat \<Rightarrow> transaction_status \<Rightarrow> string option
     \<Rightarrow> (transaction \<times> state) option" where
  "transaction_create s projectId clientId freelancerId amount status stripePaymentId =
     (if \<not> project_exists s projectId \<or> \<not> user_exists s clientId
           \<or> \<not> user_exists s freelancerId then None
      else if find (\<lambda>t. t_projectId t = projectId \<and> t_clientId t = clientId) (transactions s)
                \<noteq> None then None
      else
        let t = \<lparr>t_id = next_id s, t_projectId = projectId, t_clientId = clientId,
                 t_freelancerId = freelancerId, t_amount = amount, t_status = status,
                 t_stripePaymentId = stripePaymentId\<rparr>
        in Some (t, s\<lparr>transactions := transactions s @ [t], next_id := Suc (next_id s)\<rparr>))"

text \<open>
  \<open>prisma.$transaction\<close>: the callback works on the store; when it throws,
  nothing it wrote is kept.
\<close>

definition prisma_transaction ::
  "(state \<Rightarrow> ('a \<times> state) option) \<Rightarrow> state \<Rightarrow> 'a option \<times> state" where
  "prisma_transaction callback s =
     (case callback s of None \<Rightarrow> (None, s) | Some (result, s') \<Rightarrow> (Some result, s'))"

text \<open>The four writes of the accept handler, in the order of the callback.\<close>

definition accept_writes ::
  "ident \<Rightarrow> bid \<Rightarrow> project \<Rightarrow> state \<Rightarrow> ((bid \<times> transaction) \<times> state) option" where
  "accept_writes bidId bid project tx =
     do {
       bids1 \<leftarrow> update_by b_id bidId (\<lambda>b. b\<lparr>b_status := ACCEPTED\<rparr>) (bids tx);
       acceptedBid \<leftarrow> find_by b_id bidId bids1;
       projects1 \<leftarrow> update_by p_id (b_projectId bid) (\<lambda>p. p\<lparr>p_status := IN_PROGRESS\<rparr>)
                     (projects tx);
       let bids2 = update_many
                     (\<lambda>b. b_projectId b = b_projectId bid \<and> b_id b \<noteq> bidId \<and> b_status b = PENDING)
                     (\<lambda>b. b\<lparr>b_status := REJECTED\<rparr>) bids1;
       (transaction, tx') \<leftarrow>
          transaction_create (tx\<lparr>bids := bids2, projects := projects1\<rparr>) (b_projectId bid)
            (p_clientId project) (b_freelancerId bid) (b_bidAmount bid)
            default_transaction_status None;
       Some ((acceptedBid, transaction), tx')
     }"

text \<open>The handler of PUT /bids/:id/accept.\<close>

definition acceptBid :: "user \<Rightarrow> ident \<Rightarrow> state \<Rightarrow> (bid \<times> transaction) response \<times> state" where
  "acceptBid req_user bidId s =
     (case find_by b_id bidId (bids s) of
        None \<Rightarrow> (Error 404 ''Bid not found'', s)
      | Some bid \<Rightarrow>
          (case find_by p_id (b_projectId bid) (projects s) of
             None \<Rightarrow> (Error 500 ''Failed to accept bid'', s)
           | Some project \<Rightarrow>
               if p_clientId project \<noteq> u_id req_user
               then (Error 403 ''Not authorized to accept this bid'', s)
               else if p_status project \<noteq> POSTED
               then (Error 400 ''Project is no longer accepting bids'', s)
               else
                 (case prisma_transaction (accept_writes bidId bid project) s of
                    (None, s') \<Rightarrow> (Error 500 ''Failed to accept bid'', s')
                  | (Some result, s') \<Rightarrow> (Json 200 result, s'))))"

definition put_bids_accept ::
  "ident \<Rightarrow> ident \<Rightarrow> state \<Rightarrow> (bid \<times> transaction) response \<times> state" where
  "put_bids_accept caller bidId s =
     authenticated s caller None (\<lambda>req_user. acceptBid req_user bidId s)"

text \<open>The handler of PUT /bids/:id/reject.\<close>

definition rejectBid :: "user \<Rightarrow> ident \<Rightarrow> state \<Rightarrow> bid response \<times> state" where
  "rejectBid req_user bidId s =
     (case find_by b_id bidId (bids s) of
        None \<Rightarrow> (Error 404 ''Bid not found'', s)
      | Some bid \<Rightarrow>
          (case find_by p_id (b_projectId bid) (projects s) of
             None \<Rightarrow> (Error 500 ''Failed to reject bid'', s)
           | Some project \<Rightarrow>
               if p_clientId project \<noteq> u_id req_user
               then (Error 403 ''Not authorized to reject this bid'', s)
               else if b_status bid \<noteq> PENDING
               then (Error 400 ''Bid cannot be rejected'', s)
               else
                 (case update_by b_id bidId (\<lambda>b. b\<lparr>b_status := REJECTED\<rparr>) (bids s) of
                    None \<Rightarrow> (Error 500 ''Failed to reject bid'', s)
                  | Some bids1 \<Rightarrow>
                      (case find_by b_id bidId bids1 of
                         None \<Rightarrow> (Error 500 ''Failed to reject bid'', s)
                       | Some rejectedBid \<Rightarrow> (Json 200 rejectedBid, s\<lparr>bids := bids1\<rparr>)))))"

definition put_bids_reject :: "ident \<Rightarrow> ident \<Rightarrow> state \<Rightarrow> bid response \<times> state" where
  "put_bids_reject caller bidId s =
     authenticated s caller None (\<lambda>req_user. rejectBid req_user bidId s)"


section \<open>Projects\<close>

text \<open>The budget is the double read from the request, as the amount of a bid is.\<close>

record project_body =
  pb_title :: string
  pb_description :: string
  pb_sourceLanguage :: string
  pb_targetLanguage :: string
  pb_budget :: "rat option"
  pb_deadline :: "string option"
  pb_files :: "string list"

definition valid_deadline :: "env \<Rightarrow> string option \<Rightarrow> bool" where
  "valid_deadline env deadline = (case deadline of None \<Rightarrow> True | Some d \<Rightarrow> isISO8601 env d)"

text \<open>The handler of POST /projects; the row is created without a status.\<close>

definition createProject :: "env \<Rightarrow> user \<Rightarrow> project_body \<Rightarrow> state \<Rightarrow> project response \<times> state" where
  "createProject env req_user body s =
     (case pb_budget body of
        None \<Rightarrow> (ValidationErrors, s)
      | Some budget \<Rightarrow>
          let title = trim (pb_title body); description = trim (pb_description body) in
          if \<not> (5 \<le> length title \<and> length title \<le> 100
                \<and> 20 \<le> length description \<and> length description \<le> 2000
                \<and> pb_sourceLanguage body \<noteq> [] \<and> pb_targetLanguage body \<noteq> []
                \<and> 1 \<le> budget \<and> valid_deadline env (pb_deadline body))
          then (ValidationErrors, s)
          else if \<not> user_exists s (u_id req_user)
          then (Error 500 ''Failed to create project'', s)
          else
            let project = \<lparr>p_id = next_id s, p_clientId = u_id req_user, p_title = title,
                           p_description = description,
                           p_sourceLanguage = pb_sourceLanguage body,
                           p_targetLanguage = pb_targetLanguage body, p_budget = budget,
                           p_deadline = (case pb_deadline body of
                                           None \<Rightarrow> None
                                         | Some d \<Rightarrow> if d = [] then None else Some d),
                           p_attachedFiles = pb_files body,
                           p_status = default_project_status\<rparr>
            in (Json 201 project,
                s\<lparr>projects := projects s @ [project], next_id := Suc (next_id s)\<rparr>))"

definition post_projects :: "env \<Rightarrow> ident \<Rightarrow> project_body \<Rightarrow> state \<Rightarrow> project response \<times> state" where
  "post_projects env caller body s =
     authenticated s caller (Some [CLIENT]) (\<lambda>req_user. createProject env req_user body s)"

record project_update_body =
  pu_title :: "string option"
  pu_description :: "string option"
  pu_budget :: "rat option"
  pu_deadline :: "string option"
  pu_status :: "string option"

definition valid_project_update :: "env \<Rightarrow> project_update_body \<Rightarrow> bool" where
  "valid_project_update env body =
     ((case pu_title body of None \<Rightarrow> True
         | Some t \<Rightarrow> 5 \<le> length (trim t) \<and> length (trim t) \<le> 100)
      \<and> (case pu_description body of None \<Rightarrow> True
           | Some d \<Rightarrow> 20 \<le> length (trim d) \<and> length (trim d) \<le> 2000)
      \<and> (case pu_budget body of None \<Rightarrow> True | Some b \<Rightarrow> 1 \<le> b)
      \<and> valid_deadline env (pu_deadline body)
      \<and> (case pu_status body of None \<Rightarrow> True | Some st \<Rightarrow> status_of_string st \<noteq> None))"

text \<open>
  \<open>updateData\<close> of PUT /projects/:id: each field of the request that is
  present and truthy overwrites the column; the status is written as sent.
\<close>

definition project_updateData :: "project_update_body \<Rightarrow> project \<Rightarrow> project" where
  "project_updateData body p =
     (let p1 = (case pu_title body of
                  None \<Rightarrow> p
                | Some t \<Rightarrow> if trim t \<noteq> [] then p\<lparr>p_title := trim t\<rparr> else p);
          p2 = (case pu_description body of
                  None \<Rightarrow> p1
                | Some d \<Rightarrow> if trim d \<noteq> [] then p1\<lparr>p_description := trim d\<rparr> else p1);
          p3 = (case pu_budget body of
                  None \<Rightarrow> p2
                | Some b \<Rightarrow> if b \<noteq> 0 then p2\<lparr>p_budget := b\<rparr> else p2);
          p4 = (case pu_deadline body of
                  None \<Rightarrow> p3
                | Some d \<Rightarrow> if d \<noteq> [] then p3\<lparr>p_deadline := Some d\<rparr> else p3)
      in (case pu_status body of
            None \<Rightarrow> p4
          | Some st \<Rightarrow>
              (case status_of_string st of None \<Rightarrow> p4 | Some st' \<Rightarrow> p4\<lparr>p_status := st'\<rparr>)))"

text \<open>The handler of PUT /projects/:id.\<close>

definition updateProject ::
  "env \<Rightarrow> user \<Rightarrow> ident \<Rightarrow> project_update_body \<Rightarrow> state \<Rightarrow> project response \<times> state" where
  "updateProject env req_user projectId body s =
     (if \<not> valid_project_update env body then (ValidationErrors, s)
      else
        (case find_by p_id projectId (projects s) of
           None \<Rightarrow> (Error 404 ''Project not found'', s)
         | Some project \<Rightarrow>
             if p_clientId project \<noteq> u_id req_user
             then (Error 403 ''Not authorized to update this project'', s)
             else
               (case update_by p_id projectId (project_updateData body) (projects s) of
                  None \<Rightarrow> (Error 500 ''Failed to update project'', s)
                | Some projects1 \<Rightarrow>
                    (case find_by p_id projectId projects1 of
                       None \<Rightarrow> (Error 500 ''Failed to update project'', s)
                     | Some updatedProject \<Rightarrow>
                         (Json 200 updatedProject, s\<lparr>projects := projects1\<rparr>)))))"

definition put_projects ::
  "env \<Rightarrow> ident \<Rightarrow> ident \<Rightarrow> project_update_body \<Rightarrow> state \<Rightarrow> project response \<times> state" where
  "put_projects env caller projectId body s =
     authenticated s caller None (\<lambda>req_user. updateProject env req_user projectId body s)"

text \<open>
  The handler of DELETE /projects/:id. What the store does with the bids,
  transactions and reviews of a deleted project is declared in the schema,
  which is not among the sources: with \<open>on_delete_cascade\<close> they go with the
  project, without it the store refuses to delete a project that has any.
  The attached files are removed from disk, which is no part of the store.
\<close>

definition deleteProject :: "env \<Rightarrow> user \<Rightarrow> ident \<Rightarrow> state \<Rightarrow> unit response \<times> state" where
  "deleteProject env req_user projectId s =
     (case find_by p_id projectId (projects s) of
        None \<Rightarrow> (Error 404 ''Project not found'', s)
      | Some project \<Rightarrow>
          if p_clientId project \<noteq> u_id req_user
          then (Error 403 ''Not authorized to delete this project'', s)
          else if on_delete_cascade env
          then (Json 200 (),
                s\<lparr>projects := filter (\<lambda>p. p_id p \<noteq> projectId) (projects s),
                  bids := filter (\<lambda>b. b_projectId b \<noteq> projectId) (bids s),
                  transactions := filter (\<lambda>t. t_projectId t \<noteq> projectId) (transactions s),
                  reviews := filter (\<lambda>r. r_projectId r \<noteq> projectId) (reviews s)\<rparr>)
          else if find (\<lambda>b. b_projectId b = projectId) (bids s) \<noteq> None
                  \<or> find (\<lambda>t. t_projectId t = projectId) (transactions s) \<noteq> None
                  \<or> find (\<lambda>r. r_projectId r = projectId) (reviews s) \<noteq> None
          then (Error 500 ''Failed to delete project'', s)
          else (Json 200 (), s\<lparr>projects := filter (\<lambda>p. p_id p \<noteq> projectId) (projects s)\<rparr>))"

definition delete_projects :: "env \<Rightarrow> ident \<Rightarrow> ident \<Rightarrow> state \<Rightarrow> unit response \<times> state" where
  "delete_projects env caller projectId s =
     authenticated s caller None (\<lambda>req_user. deleteProject env req_user projectId s)"

section \<open>Escrow transactions\<close>

record confirm_body =
  cb_paymentIntentId :: string
  cb_projectId :: "ident option"
  cb_freelancerId :: "ident option"

text \<open>
  The handler of POST /transactions/confirm-payment: an upsert on the key
  (projectId, clientId).
\<close>

definition confirmPayment ::
  "env \<Rightarrow> user \<Rightarrow> confirm_body \<Rightarrow> state \<Rightarrow> transaction response \<times> state" where
  "confirmPayment env req_user body s =
     (case (cb_projectId body, cb_freelancerId body) of
        (Some projectId, Some freelancerId) \<Rightarrow>
          if cb_paymentIntentId body = [] then (ValidationErrors, s)
          else
            (case stripe_retrieve env (cb_paymentIntentId body) of
               None \<Rightarrow> (Error 500 ''Failed to confirm payment'', s)
             | Some paymentIntent \<Rightarrow>
                 if pi_status paymentIntent \<noteq> ''succeeded''
                 then (Error 400 ''Payment not completed'', s)
                 else
                   let key = (\<lambda>t. t_projectId t = projectId \<and> t_clientId t = u_id req_user) in
                   (case find key (transactions s) of
                      Some existing \<Rightarrow>
                        let upd = (\<lambda>t. t\<lparr>t_stripePaymentId := Some (cb_paymentIntentId body),
                                          t_status := T_PENDING\<rparr>)
                        in (Json 200 (upd existing),
                            s\<lparr>transactions := update_many key upd (transactions s)\<rparr>)
                    | None \<Rightarrow>
                        (case transaction_create s projectId (u_id req_user) freelancerId
                                (of_int (pi_amount paymentIntent) / 100) T_PENDING
                                (Some (cb_paymentIntentId body)) of
                           None \<Rightarrow> (Error 500 ''Failed to confirm payment'', s)
                         | Some (transaction, s') \<Rightarrow> (Json 200 transaction, s'))))
      | _ \<Rightarrow> (ValidationErrors, s))"

definition post_confirm_payment ::
  "env \<Rightarrow> ident \<Rightarrow> confirm_body \<Rightarrow> state \<Rightarrow> transaction response \<times> state" where
  "post_confirm_payment env caller body s =
     authenticated s caller None (\<lambda>req_user. confirmPayment env req_user body s)"

text \<open>
  The handlers of POST /transactions/:id/release and /refund. The two writes
  are not wrapped in a store transaction: when the second one throws, the
  first one stays.
\<close>

definition release :: "user \<Rightarrow> ident \<Rightarrow> state \<Rightarrow> transaction response \<times> state" where
  "release req_user transactionId s =
     (case find_by t_id transactionId (transactions s) of
        None \<Rightarrow> (Error 404 ''Transaction not found'', s)
      | Some transaction \<Rightarrow>
          if t_clientId transaction \<noteq> u_id req_user
          then (Error 403 ''Not authorized to release this payment'', s)
          else if t_status transaction \<noteq> T_PENDING
          then (Error 400 ''Payment cannot be released'', s)
          else
            (case update_by t_id transactionId (\<lambda>t. t\<lparr>t_status := RELEASED\<rparr>)
                    (transactions s) of
               None \<Rightarrow> (Error 500 ''Failed to release payment'', s)
             | Some transactions1 \<Rightarrow>
                 let s1 = s\<lparr>transactions := transactions1\<rparr> in
                 (case update_by p_id (t_projectId transaction) (\<lambda>p. p\<lparr>p_status := PAID\<rparr>)
                         (projects s1) of
                    None \<Rightarrow> (Error 500 ''Failed to release payment'', s1)
                  | Some projects1 \<Rightarrow>
                      (Json 200 (transaction\<lparr>t_status := RELEASED\<rparr>),
                       s1\<lparr>projects := projects1\<rparr>))))"

definition refund :: "user \<Rightarrow> ident \<Rightarrow> state \<Rightarrow> transaction response \<times> state" where
  "refund req_user transactionId s =
     (case find_by t_id transactionId (transactions s) of
        None \<Rightarrow> (Error 404 ''Transaction not found'', s)
      | Some transaction \<Rightarrow>
          if t_clientId transaction \<noteq> u_id req_user
          then (Error 403 ''Not authorized to refund this payment'', s)
          else if t_status transaction \<noteq> T_PENDING
          then (Error 400 ''Payment cannot be refunded'', s)
          else
            (case update_by t_id transactionId (\<lambda>t. t\<lparr>t_status := REFUNDED\<rparr>)
                    (transactions s) of
               None \<Rightarrow> (Error 500 ''Failed to process refund'', s)
             | Some transactions1 \<Rightarrow>
                 let s1 = s\<lparr>transactions := transactions1\<rparr> in
                 (case update_by p_id (t_projectId transaction) (\<lambda>p. p\<lparr>p_status := CANCELLED\<rparr>)
                         (projects s1) of
                    None \<Rightarrow> (Error 500 ''Failed to process refund'', s1)
                  | Some projects1 \<Rightarrow>
                      (Json 200 (transaction\<lparr>t_status := REFUNDED\<rparr>),
                       s1\<lparr>projects := projects1\<rparr>))))"

definition post_release :: "ident \<Rightarrow> ident \<Rightarrow> state \<Rightarrow> transaction response \<times> state" where
  "post_release caller transactionId s =
     authenticated s caller None (\<lambda>req_user. release req_user transactionId s)"

definition post_refund :: "ident \<Rightarrow> ident \<Rightarrow> state \<Rightarrow> transaction response \<times> state" where
  "post_refund caller transactionId s =
     authenticated s caller None (\<lambda>req_user. refund req_user transactionId s)"


section \<open>Reviews\<close>

text \<open>
  \<open>Math.round\<close> gives the nearest integer, a half going up. The average
  and the stored rating are exact rationals here, where the server computes
  with binary floating point numbers.
\<close>

definition Math_round :: "rat \<Rightarrow> int" where
  "Math_round x = \<lfloor>x + 1 / 2\<rfloor>"

definition averageRating :: "review list \<Rightarrow> rat" where
  "averageRating userReviews =
     of_int (foldl (\<lambda>sum r. sum + r_rating r) 0 userReviews) / of_nat (length userReviews)"

definition rounded_rating :: "review list \<Rightarrow> rat" where
  "rounded_rating userReviews = of_int (Math_round (averageRating userReviews * 10)) / 10"

record review_body =
  vb_projectId :: "ident option"
  vb_revieweeId :: "ident option"
  vb_rating :: "int option"
  vb_comment :: "string option"

definition valid_comment :: "string option \<Rightarrow> bool" where
  "valid_comment comment = (case comment of None \<Rightarrow> True | Some c \<Rightarrow> length (trim c) \<le> 1000)"

definition review_create ::
  "state \<Rightarrow> ident \<Rightarrow> ident \<Rightarrow> ident \<Rightarrow> int \<Rightarrow> string option \<Rightarrow> (review \<times> state) option" where
  "review_create s projectId reviewerId revieweeId rating comment =
     (if \<not> project_exists s projectId \<or> \<not> user_exists s reviewerId
           \<or> \<not> user_exists s revieweeId then None
      else
        let review = \<lparr>r_id = next_id s, r_projectId = projectId, r_reviewerId = reviewerId,
                      r_revieweeId = revieweeId, r_rating = rating, r_comment = comment\<rparr>
        in Some (review, s\<lparr>reviews := reviews s @ [review], next_id := Suc (next_id s)\<rparr>))"

text \<open>
  The recomputation both review handlers end with: all reviews of the
  reviewee are read back and their rounded average is written to the account.
\<close>

definition update_user_rating :: "ident \<Rightarrow> state \<Rightarrow> state option" where
  "update_user_rating revieweeId s =
     (let userReviews = filter (\<lambda>r. r_revieweeId r = revieweeId) (reviews s) in
      case update_by u_id revieweeId (\<lambda>u. u\<lparr>u_rating := rounded_rating userReviews\<rparr>) (users s) of
        None \<Rightarrow> None
      | Some users1 \<Rightarrow> Some (s\<lparr>users := users1\<rparr>))"

text \<open>The handler of POST /reviews.\<close>

definition createReview :: "user \<Rightarrow> review_body \<Rightarrow> state \<Rightarrow> review response \<times> state" where
  "createReview req_user body s =
     (case (vb_projectId body, vb_revieweeId body, vb_rating body) of
        (Some projectId, Some revieweeId, Some rating) \<Rightarrow>
          if \<not> (1 \<le> rating \<and> rating \<le> 5 \<and> valid_comment (vb_comment body))
          then (ValidationErrors, s)
          else
            (case find_by p_id projectId (projects s) of
               None \<Rightarrow> (Error 404 ''Project not found'', s)
             | Some project \<Rightarrow>
                 if p_status project \<noteq> PAID \<and> p_status project \<noteq> COMPLETED
                 then (Error 400 ''Project must be completed before reviewing'', s)
                 else
                   let project_bids = filter (\<lambda>b. b_projectId b = projectId \<and> b_status b = ACCEPTED)
                                        (bids s);
                       isClient = (p_clientId project = u_id req_user);
                       isFreelancer = list_ex (\<lambda>bid. b_freelancerId bid = u_id req_user) project_bids
                   in if \<not> isClient \<and> \<not> isFreelancer
                      then (Error 403 ''Not authorized to review this project'', s)
                      else if find (\<lambda>r. r_projectId r = projectId \<and> r_reviewerId r = u_id req_user
                                          \<and> r_revieweeId r = revieweeId) (reviews s) \<noteq> None
                      then (Error 400 ''You have already reviewed this user for this project'', s)
                      else
                        (case review_create s projectId (u_id req_user) revieweeId rating
                                (map_option trim (vb_comment body)) of
                           None \<Rightarrow> (Error 500 ''Failed to create review'', s)
                         | Some (review, s1) \<Rightarrow>
                             (case update_user_rating revieweeId s1 of
                                None \<Rightarrow> (Error 500 ''Failed to create review'', s1)
                              | Some s2 \<Rightarrow> (Json 201 review, s2))))
      | _ \<Rightarrow> (ValidationErrors, s))"

definition post_reviews :: "ident \<Rightarrow> review_body \<Rightarrow> state \<Rightarrow> review response \<times> state" where
  "post_reviews caller body s =
     authenticated s caller None (\<lambda>req_user. createReview req_user body s)"

record review_update_body =
  vu_rating :: "int option"
  vu_comment :: "string option"

definition review_updateData :: "review_update_body \<Rightarrow> review \<Rightarrow> review" where
  "review_updateData body r =
     (let r1 = (case vu_rating body of
                  None \<Rightarrow> r
                | Some rating \<Rightarrow> if rating \<noteq> 0 then r\<lparr>r_rating := rating\<rparr> else r)
      in (case vu_comment body of None \<Rightarrow> r1 | Some c \<Rightarrow> r1\<lparr>r_comment := Some (trim c)\<rparr>))"

definition rating_given :: "review_update_body \<Rightarrow> bool" where
  "rating_given body = (case vu_rating body of None \<Rightarrow> False | Some rating \<Rightarrow> rating \<noteq> 0)"

text \<open>The handler of PUT /reviews/:id.\<close>

definition updateReview ::
  "user \<Rightarrow> ident \<Rightarrow> review_update_body \<Rightarrow> state \<Rightarrow> review response \<times> state" where
  "updateReview req_user reviewId body s =
     (if \<not> ((case vu_rating body of None \<Rightarrow> True | Some rating \<Rightarrow> 1 \<le> rating \<and> rating \<le> 5)
            \<and> valid_comment (vu_comment body))
      then (ValidationErrors, s)
      else
        (case find_by r_id reviewId (reviews s) of
           None \<Rightarrow> (Error 404 ''Review not found'', s)
         | Some review \<Rightarrow>
             if r_reviewerId review \<noteq> u_id req_user
             then (Error 403 ''Not authorized to update this review'', s)
             else
               (case update_by r_id reviewId (review_updateData body) (reviews s) of
                  None \<Rightarrow> (Error 500 ''Failed to update review'', s)
                | Some reviews1 \<Rightarrow>
                    let s1 = s\<lparr>reviews := reviews1\<rparr>;
                        updatedReview = review_updateData body review
                    in if rating_given body
                       then (case update_user_rating (r_revieweeId review) s1 of
                               None \<Rightarrow> (Error 500 ''Failed to update review'', s1)
                             | Some s2 \<Rightarrow> (Json 200 updatedReview, s2))
                       else (Json 200 updatedReview, s1))))"

definition put_reviews ::
  "ident \<Rightarrow> ident \<Rightarrow> review_update_body \<Rightarrow> state \<Rightarrow> review response \<times> state" where
  "put_reviews caller reviewId body s =
     authenticated s caller None (\<lambda>req_user. updateReview req_user reviewId body s)"

section \<open>Profiles\<close>

record profile_body =
  fb_name :: "string option"
  fb_languages :: "string list option"
  fb_file :: "string option"

text \<open>The handler of PUT /users/profile.\<close>

definition updateProfile :: "env \<Rightarrow> user \<Rightarrow> profile_body \<Rightarrow> state \<Rightarrow> user response \<times> state" where
  "updateProfile env req_user body s =
     (if \<not> (case fb_name body of None \<Rightarrow> True | Some n \<Rightarrow> 2 \<le> length (trim n))
      then (ValidationErrors, s)
      else
        let set_name = (\<lambda>u. case fb_name body of
                              None \<Rightarrow> u
                            | Some n \<Rightarrow> if trim n \<noteq> [] then u\<lparr>u_name := trim n\<rparr> else u);
            set_file = (\<lambda>u. case fb_file body of
                              None \<Rightarrow> u
                            | Some path \<Rightarrow> u\<lparr>u_profilePicture := Some path\<rparr>);
            parsed = (case fb_languages body of
                        None \<Rightarrow> Some None
                      | Some ls \<Rightarrow>
                          if u_role req_user = FREELANCER
                          then map_option Some (json_parse_languages env ls)
                          else Some None)
        in (case parsed of
              None \<Rightarrow> (Error 500 ''Failed to update profile'', s)
            | Some languages \<Rightarrow>
                let set_languages = (\<lambda>u. case languages of
                                           None \<Rightarrow> u
                                         | Some ls \<Rightarrow> u\<lparr>u_languages := ls\<rparr>);
                    upd = (\<lambda>u. set_file (set_languages (set_name u)))
                in (case update_by u_id (u_id req_user) upd (users s) of
                      None \<Rightarrow> (Error 500 ''Failed to update profile'', s)
                    | Some users1 \<Rightarrow> (Json 200 (upd req_user), s\<lparr>users := users1\<rparr>))))"

definition put_profile :: "env \<Rightarrow> ident \<Rightarrow> profile_body \<Rightarrow> state \<Rightarrow> user response \<times> state" where
  "put_profile env caller body s =
     authenticated s caller None (\<lambda>req_user. updateProfile env req_user body s)"

section \<open>The server as a transition system\<close>

text \<open>
  Every route that writes to the store, with the caller the bearer token
  stands for. The routes that only read leave the store as it is.
\<close>

datatype request =
    Register register_body
  | PutProfile ident profile_body
  | PostProject ident project_body
  | PutProject ident ident project_update_body
  | DeleteProject ident ident
  | PostBid ident bid_body
  | AcceptBid ident ident
  | RejectBid ident ident
  | ConfirmPayment ident confirm_body
  | Release ident ident
  | Refund ident ident
  | PostReview ident review_body
  | PutReview ident ident review_update_body

fun step :: "env \<Rightarrow> request \<Rightarrow> state \<Rightarrow> state" where
  "step env (Register body) s = snd (register env body s)"
| "step env (PutProfile caller body) s = snd (put_profile env caller body s)"
| "step env (PostProject caller body) s = snd (post_projects env caller body s)"
| "step env (PutProject caller projectId body) s = snd (put_projects env caller projectId body s)"
| "step env (DeleteProject caller projectId) s = snd (delete_projects env caller projectId s)"
| "step env (PostBid caller body) s = snd (post_bids caller body s)"
| "step env (AcceptBid caller bidId) s = snd (put_bids_accept caller bidId s)"
| "step env (RejectBid caller bidId) s = snd (put_bids_reject caller bidId s)"
| "step env (ConfirmPayment caller body) s = snd (post_confirm_payment env caller body s)"
| "step env (Release caller transactionId) s = snd (post_release caller transactionId s)"
| "step env (Refund caller transactionId) s = snd (post_refund caller transactionId s)"
| "step env (PostReview caller body) s = snd (post_reviews caller body s)"
| "step env (PutReview caller reviewId body) s = snd (put_reviews caller reviewId body s)"

definition run :: "env \<Rightarrow> request list \<Rightarrow> state" where
  "run env requests = foldl (\<lambda>s request. step env request s) empty_store requests"


section \<open>The vocabulary of the properties\<close>

text \<open>
  The bids of a project after one of them has been accepted: the accepted
  bid, the pending siblings rejected, every other bid as it was.
\<close>

definition accepted_bids :: "ident \<Rightarrow> bid \<Rightarrow> bid list \<Rightarrow> bid list" where
  "accepted_bids bidId bid bs =
     map (\<lambda>b. if b_id b = bidId then b\<lparr>b_status := ACCEPTED\<rparr>
              else if b_projectId b = b_projectId bid \<and> b_status b = PENDING
              then b\<lparr>b_status := REJECTED\<rparr> else b) bs"

definition accepted_on :: "bid list \<Rightarrow> ident \<Rightarrow> bid list" where
  "accepted_on bs projectId = filter (\<lambda>b. b_projectId b = projectId \<and> b_status b = ACCEPTED) bs"

definition project_status_of :: "state \<Rightarrow> ident \<Rightarrow> project_status option" where
  "project_status_of s projectId = map_option p_status (find_by p_id projectId (projects s))"

definition transaction_status_of :: "state \<Rightarrow> ident \<Rightarrow> transaction_status option" where
  "transaction_status_of s transactionId =
     map_option t_status (find_by t_id transactionId (transactions s))"

text \<open>The ratings a user has received, their mean, and the rating on the account.\<close>

definition received :: "state \<Rightarrow> ident \<Rightarrow> review list" where
  "received s userId = filter (\<lambda>r. r_revieweeId r = userId) (reviews s)"

definition arithmetic_mean :: "int list \<Rightarrow> rat" where
  "arithmetic_mean ratings = of_int (sum_list ratings) / of_nat (length ratings)"

definition stored_rating :: "state \<Rightarrow> ident \<Rightarrow> rat option" where
  "stored_rating s userId = map_option u_rating (find_by u_id userId (users s))"

text \<open>
  \<open>x\<close> is \<open>q\<close> rounded to one decimal place: a whole number of tenths, and
  none is nearer to \<open>q\<close>.
\<close>

definition rounded_to_one_decimal :: "rat \<Rightarrow> rat \<Rightarrow> bool" where
  "rounded_to_one_decimal x q = (of_int \<lfloor>x * 10\<rfloor> = x * 10 \<and> \<bar>x - q\<bar> \<le> 1 / 20)"

text \<open>
  The order of the project statuses the specification describes: forward along
  POSTED, IN_PROGRESS, COMPLETED, PAID; CANCELLED from anywhere but PAID, and
  nothing after CANCELLED.
\<close>

fun status_rank :: "project_status \<Rightarrow> nat" where
  "status_rank POSTED = 0"
| "status_rank IN_PROGRESS = 1"
| "status_rank COMPLETED = 2"
| "status_rank PAID = 3"
| "status_rank CANCELLED = 4"

definition one_directional :: "project_status \<Rightarrow> project_status \<Rightarrow> bool" where
  "one_directional old new =
     (if old = CANCELLED then new = CANCELLED
      else if new = CANCELLED then old \<noteq> PAID
      else status_rank old \<le> status_rank new)"

subsection \<open>The invariant of the store\<close>

text \<open>
  Identifiers are fresh, every accepted bid has the escrow transaction of its
  project and the project's client, and no project has two accepted bids.
\<close>

definition escrow_key :: "transaction list \<Rightarrow> ident \<Rightarrow> ident \<Rightarrow> bool" where
  "escrow_key ts projectId clientId =
     list_ex (\<lambda>t. t_projectId t = projectId \<and> t_clientId t = clientId) ts"

definition ids_below :: "bid list \<Rightarrow> project list \<Rightarrow> ident \<Rightarrow> bool" where
  "ids_below bs ps n =
     (distinct (map b_id bs) \<and> list_all (\<lambda>b. b_id b < n \<and> b_projectId b < n) bs
      \<and> list_all (\<lambda>p. p_id p < n) ps)"

definition accepted_have_escrow :: "bid list \<Rightarrow> project list \<Rightarrow> transaction list \<Rightarrow> bool" where
  "accepted_have_escrow bs ps ts =
     list_all (\<lambda>b. b_status b = ACCEPTED \<longrightarrow>
                 (case find_by p_id (b_projectId b) ps of
                    None \<Rightarrow> True
                  | Some p \<Rightarrow> escrow_key ts (b_projectId b) (p_clientId p))) bs"

definition one_accepted :: "bid list \<Rightarrow> bool" where
  "one_accepted bs = (\<forall>projectId. length (accepted_on bs projectId) \<le> 1)"

definition store_inv :: "state \<Rightarrow> bool" where
  "store_inv s =
     (ids_below (bids s) (projects s) (next_id s)
      \<and> accepted_have_escrow (bids s) (projects s) (transactions s)
      \<and> one_accepted (bids s))"

text \<open>
  The owner of every project is an account of the store with role CLIENT:
  only a CLIENT passes the role guard of POST /projects, and no route changes
  a role, an owner, or removes an account.
\<close>

definition owner_is_client :: "user list \<Rightarrow> project \<Rightarrow> bool" where
  "owner_is_client us p =
     (case find_by u_id (p_clientId p) us of None \<Rightarrow> False | Some u \<Rightarrow> u_role u = CLIENT)"

definition owners_are_clients :: "state \<Rightarrow> bool" where
  "owners_are_clients s = list_all (owner_is_client (users s)) (projects s)"

subsection \<open>A worked scenario\<close>

text \<open>
  A client posts a project with a budget of 500; one freelancer bids 450 and
  another 480. The libraries are replaced by simple stand-ins; the one for
  the JSON parser throws, as \<open>JSON.parse\<close> does on a list of language names.
\<close>

definition demo_env :: env where
  "demo_env =
     \<lparr>bcrypt_hash = (\<lambda>password rounds. rev password),
      isEmail = (\<lambda>e. CHR ''@'' \<in> set e \<and> CHR ''.'' \<in> set e),
      normalizeEmail = (\<lambda>e. e),
      isISO8601 = (\<lambda>d. d \<noteq> []),
      stripe_retrieve = (\<lambda>i. if i = ''pi_1''
                             then Some \<lparr>pi_status = ''succeeded'', pi_amount = 45000\<rparr>
                             else None),
      json_parse_languages = (\<lambda>ls. None),
      on_delete_cascade = True\<rparr>"

definition demo_client_body :: register_body where
  "demo_client_body =
     \<lparr>rb_name = ''Ann'', rb_email = ''ann@example.com'', rb_password = ''secret'', rb_role = ''CLIENT'',
      rb_languages = Some [''fr'']\<rparr>"

definition demo_freelancer_body :: register_body where
  "demo_freelancer_body =
     \<lparr>rb_name = ''Bob'', rb_email = ''bob@example.com'', rb_password = ''secret'', rb_role = ''FREELANCER'',
      rb_languages = Some [''fr'']\<rparr>"

definition demo_requests :: "request list" where
  "demo_requests =
     [Register demo_client_body,
      Register demo_freelancer_body,
      Register \<lparr>rb_name = ''Cat'', rb_email = ''cat@example.com'', rb_password = ''secret'',
                rb_role = ''FREELANCER'', rb_languages = None\<rparr>,
      PostProject 0 \<lparr>pb_title = ''Title'', pb_description = ''A description of it.'',
                      pb_sourceLanguage = ''en'', pb_targetLanguage = ''fr'',
                      pb_budget = Some 500, pb_deadline = None, pb_files = []\<rparr>,
      PostBid 1 \<lparr>bb_projectId = Some 3, bb_bidAmount = Some 450, bb_estimatedTime = ''2d''\<rparr>,
      PostBid 2 \<lparr>bb_projectId = Some 3, bb_bidAmount = Some 480, bb_estimatedTime = ''3d''\<rparr>]"

definition demo_ann :: user where
  "demo_ann = \<lparr>u_id = 0, u_name = ''Ann'', u_email = ''ann@example.com'', u_passwordHash = ''terces'',
               u_role = CLIENT, u_languages = [], u_rating = 0, u_profilePicture = None\<rparr>"

definition demo_bob :: user where
  "demo_bob = \<lparr>u_id = 1, u_name = ''Bob'', u_email = ''bob@example.com'', u_passwordHash = ''terces'',
               u_role = FREELANCER, u_languages = [''fr''], u_rating = 0,
               u_profilePicture = None\<rparr>"

definition demo_cat :: user where
  "demo_cat = \<lparr>u_id = 2, u_name = ''Cat'', u_email = ''cat@example.com'', u_passwordHash = ''terces'',
               u_role = FREELANCER, u_languages = [], u_rating = 0, u_profilePicture = None\<rparr>"

definition demo_store :: state where
  "demo_store = run demo_env demo_requests"

definition demo_accepted :: state where
  "demo_accepted = run demo_env (demo_requests @ [AcceptBid 0 4])"

definition demo_paid :: state where
  "demo_paid = run demo_env (demo_requests @ [AcceptBid 0 4, Release 0 6])"

definition set_status :: "string \<Rightarrow> project_update_body" where
  "set_status st = \<lparr>pu_title = None, pu_description = None, pu_budget = None,
                    pu_deadline = None, pu_status = Some st\<rparr>"

definition demo_reopened :: state where
  "demo_reopened = run demo_env (demo_requests @ [AcceptBid 0 4, PutProject 0 3 (set_status ''POSTED'')])"

definition demo_cancelled :: state where
  "demo_cancelled = run demo_env (demo_requests @ [PutProject 0 3 (set_status ''CANCELLED'')])"

definition demo_review_body :: review_body where
  "demo_review_body = \<lparr>vb_projectId = Some 3, vb_revieweeId = Some 1, vb_rating = Some 5,
                        vb_comment = None\<rparr>"

definition demo_reviewed :: state where
  "demo_reviewed = run demo_env (demo_requests @ [AcceptBid 0 4, Release 0 6,
                                   PostReview 0 demo_review_body])"

definition demo_bid_body :: bid_body where
  "demo_bid_body = \<lparr>bb_projectId = Some 3, bb_bidAmount = Some 480, bb_estimatedTime = ''3d''\<rparr>"

definition demo_project :: project where
  "demo_project =
     \<lparr>p_id = 3, p_clientId = 0, p_title = ''Title'', p_description = ''A description of it.'',
      p_sourceLanguage = ''en'', p_targetLanguage = ''fr'', p_budget = 500, p_deadline = None,
      p_attachedFiles = [], p_status = POSTED\<rparr>"

definition demo_rating_update :: review_update_body where
  "demo_rating_update = \<lparr>vu_rating = Some 4, vu_comment = None\<rparr>"

definition demo_review :: "int \<Rightarrow> review" where
  "demo_review rating = \<lparr>r_id = 7, r_projectId = 3, r_reviewerId = 0, r_revieweeId = 1,
                         r_rating = rating, r_comment = None\<rparr>"

section \<open>Store primitives: basic facts\<close>

lemma find_by_Nil [simp]: "find_by key i [] = None"
  by (simp add: find_by_def)

lemma find_by_Cons [simp]:
  "find_by key i (x # xs) = (if key x = i then Some x else find_by key i xs)"
  by (simp add: find_by_def)

lemma find_by_Some: "find_by key i xs = Some x \<Longrightarrow> x \<in> set xs \<and> key x = i"
  by (auto simp: find_by_def find_Some_iff)

lemma find_by_update_many:
  "(\<And>x. key (f x) = key x) \<Longrightarrow>
   find_by key i (update_many (\<lambda>x. key x = i) f xs) = map_option f (find_by key i xs)"
  by (induction xs) (auto simp: update_many_def)

lemma find_by_update_many_key:
  "(\<And>x. key (f x) = key x) \<Longrightarrow>
   find_by key i (update_many P f xs)
     = map_option (\<lambda>x. if P x then f x else x) (find_by key i xs)"
  by (induction xs) (auto simp: update_many_def)

lemma find_by_append:
  "find_by key i (xs @ ys)
     = (case find_by key i xs of None \<Rightarrow> find_by key i ys | Some x \<Rightarrow> Some x)"
  by (induction xs) auto

lemma find_by_filter:
  "i \<noteq> j \<Longrightarrow> find_by key i (filter (\<lambda>x. key x \<noteq> j) xs) = find_by key i xs"
  by (induction xs) auto

lemma find_by_filter_same: "find_by key j (filter (\<lambda>x. key x \<noteq> j) xs) = None"
  by (induction xs) auto

lemma update_by_Some:
  "update_by key i f xs = Some ys \<longleftrightarrow>
     find_by key i xs \<noteq> None \<and> ys = update_many (\<lambda>x. key x = i) f xs"
  by (auto simp: update_by_def)

lemma map_key_update_many:
  "(\<And>x. key (f x) = key x) \<Longrightarrow> map key (update_many P f xs) = map key xs"
  by (induction xs) (auto simp: update_many_def)

lemma distinct_key_filter:
  "distinct (map key xs) \<Longrightarrow> length (filter (\<lambda>x. key x = i) xs) \<le> Suc 0"
proof (induction xs)
  case Nil
  then show ?case by simp
next
  case (Cons x xs)
  show ?case
  proof (cases "key x = i")
    case True
    with Cons.prems have "\<forall>y\<in>set xs. key y \<noteq> i" by (auto simp: image_iff)
    then have "filter (\<lambda>x. key x = i) xs = []" by (simp add: filter_empty_conv)
    with True show ?thesis by simp
  next
    case False
    with Cons show ?thesis by simp
  qed
qed

lemma distinct_key_unique:
  "distinct (map key xs) \<Longrightarrow> x \<in> set xs \<Longrightarrow> y \<in> set xs \<Longrightarrow> key x = key y \<Longrightarrow> x = y"
  by (meson distinct_map inj_on_eq_iff)

lemma authenticated_cases:
  assumes "P s"
    and "\<And>req_user. authenticateToken s caller = Some req_user \<Longrightarrow> P (snd (handler req_user))"
  shows "P (snd (authenticated s caller roles handler))"
  using assms by (simp add: authenticated_def split: option.splits)

section \<open>Registration\<close>

text \<open>
  Claim C10. Every successful registration with role CLIENT creates an account
  whose languages are empty, whatever languages the request supplied; only a
  registration with role FREELANCER stores the supplied languages (none when
  the request has none). The created account is the payload of the answer and
  the row appended to the users.
\<close>

theorem register_languages:
  "register env body s = (Json c u, s') \<Longrightarrow>
     users s' = users s @ [u]
     \<and> (rb_role body = ''CLIENT'' \<longrightarrow> u_role u = CLIENT \<and> u_languages u = [])
     \<and> (rb_role body = ''FREELANCER'' \<longrightarrow> u_role u = FREELANCER
          \<and> u_languages u = (case rb_languages body of None \<Rightarrow> [] | Some ls \<Rightarrow> ls))"
  by (auto simp: register_def role_of_string_def Let_def split: option.splits if_splits)

theorem register_languages_witness:
  "register demo_env demo_client_body empty_store
     = (Json 201 demo_ann, empty_store\<lparr>users := [demo_ann], next_id := 1\<rparr>)
   \<and> rb_languages demo_client_body = Some [''fr'']
   \<and> u_role demo_ann = CLIENT \<and> u_languages demo_ann = []
   \<and> register demo_env demo_freelancer_body (empty_store\<lparr>users := [demo_ann], next_id := 1\<rparr>)
     = (Json 201 demo_bob, empty_store\<lparr>users := [demo_ann, demo_bob], next_id := 2\<rparr>)
   \<and> u_role demo_bob = FREELANCER \<and> u_languages demo_bob = [''fr'']"
proof -
  have a: "register demo_env demo_client_body empty_store
             = (Json 201 demo_ann, empty_store\<lparr>users := [demo_ann], next_id := 1\<rparr>)"
    by code_simp
  have b: "register demo_env demo_freelancer_body (empty_store\<lparr>users := [demo_ann], next_id := 1\<rparr>)
             = (Json 201 demo_bob, empty_store\<lparr>users := [demo_ann, demo_bob], next_id := 2\<rparr>)"
    by code_simp
  from register_languages[OF a] register_languages[OF b] a b show ?thesis
    by (simp add: demo_client_body_def demo_freelancer_body_def)
qed

section \<open>Accepting a bid\<close>

text \<open>
  Claim C4. On a bid that exists, the accept handler fails with Forbidden
  (403) when the caller is not the owner of the bid's project, and with a
  Conflict (400) when the caller is the owner and the project's status is not
  POSTED; the ownership check comes first, so a status other than POSTED makes
  the call fail for every caller. A failed call changes no bid, project or
  transaction: the store is the one before the call.
\<close>

theorem acceptBid_refusals:
  assumes "find_by b_id bidId (bids s) = Some bid"
    and "find_by p_id (b_projectId bid) (projects s) = Some project"
  shows "(p_clientId project \<noteq> u_id req_user
            \<longrightarrow> is_forbidden (fst (acceptBid req_user bidId s))
                \<and> http_status (fst (acceptBid req_user bidId s)) = 403
                \<and> snd (acceptBid req_user bidId s) = s)
       \<and> (p_clientId project = u_id req_user \<and> p_status project \<noteq> POSTED
            \<longrightarrow> is_conflict (fst (acceptBid req_user bidId s))
                \<and> http_status (fst (acceptBid req_user bidId s)) = 400
                \<and> snd (acceptBid req_user bidId s) = s)
       \<and> (p_status project \<noteq> POSTED
            \<longrightarrow> \<not> succeeded (fst (acceptBid req_user bidId s))
                \<and> snd (acceptBid req_user bidId s) = s)"
  using assms by (simp add: acceptBid_def)

theorem acceptBid_refusals_witness:
  "is_forbidden (fst (acceptBid demo_bob 4 demo_store))
   \<and> snd (acceptBid demo_bob 4 demo_store) = demo_store
   \<and> is_conflict (fst (acceptBid demo_ann 5 demo_accepted))
   \<and> snd (acceptBid demo_ann 5 demo_accepted) = demo_accepted"
proof -
  let ?b4 = "\<lparr>b_id = 4, b_projectId = 3, b_freelancerId = 1, b_bidAmount = 450,
               b_estimatedTime = ''2d'', b_status = PENDING\<rparr>"
  let ?b5 = "\<lparr>b_id = 5, b_projectId = 3, b_freelancerId = 2, b_bidAmount = 480,
               b_estimatedTime = ''3d'', b_status = REJECTED\<rparr>"
  have 1: "find_by b_id 4 (bids demo_store) = Some ?b4"
    "find_by p_id (b_projectId ?b4) (projects demo_store) = Some demo_project"
    "p_clientId demo_project \<noteq> u_id demo_bob"
    by code_simp+
  have 2: "find_by b_id 5 (bids demo_accepted) = Some ?b5"
    "find_by p_id (b_projectId ?b5) (projects demo_accepted)
       = Some (demo_project\<lparr>p_status := IN_PROGRESS\<rparr>)"
    "p_clientId (demo_project\<lparr>p_status := IN_PROGRESS\<rparr>) = u_id demo_ann"
    by code_simp+
  from acceptBid_refusals[OF 1(1,2), of demo_bob] 1(3)
       acceptBid_refusals[OF 2(1,2), of demo_ann] 2(3)
  show ?thesis by simp
qed

text \<open>What the four writes of the callback leave when none of them throws.\<close>

lemma accept_writes_Some:
  assumes "accept_writes bidId bid project s = Some ((acceptedBid, transaction), s')"
    and "find_by b_id bidId (bids s) = Some bid"
  shows "acceptedBid = bid\<lparr>b_status := ACCEPTED\<rparr>
       \<and> transaction = \<lparr>t_id = next_id s, t_projectId = b_projectId bid,
                        t_clientId = p_clientId project, t_freelancerId = b_freelancerId bid,
                        t_amount = b_bidAmount bid, t_status = T_PENDING,
                        t_stripePaymentId = None\<rparr>
       \<and> s' = s\<lparr>bids := accepted_bids bidId bid (bids s),
                projects := update_many (\<lambda>p. p_id p = b_projectId bid)
                              (\<lambda>p. p\<lparr>p_status := IN_PROGRESS\<rparr>) (projects s),
                transactions := transactions s @ [transaction],
                next_id := Suc (next_id s)\<rparr>
       \<and> \<not> escrow_key (transactions s) (b_projectId bid) (p_clientId project)"
proof -
  have m: "update_many (\<lambda>b. b_projectId b = b_projectId bid \<and> b_id b \<noteq> bidId \<and> b_status b = PENDING)
             (\<lambda>b. b\<lparr>b_status := REJECTED\<rparr>)
             (update_many (\<lambda>b. b_id b = bidId) (\<lambda>b. b\<lparr>b_status := ACCEPTED\<rparr>) bs)
           = accepted_bids bidId bid bs" for bs
    by (induction bs) (auto simp: update_many_def accepted_bids_def)
  have f: "find_by b_id bidId (update_many (\<lambda>b. b_id b = bidId) (\<lambda>b. b\<lparr>b_status := ACCEPTED\<rparr>) (bids s))
           = Some (bid\<lparr>b_status := ACCEPTED\<rparr>)"
    using assms(2) by (simp add: find_by_update_many)
  have e: "escrow_key ts i c \<longleftrightarrow> find (\<lambda>t. t_projectId t = i \<and> t_clientId t = c) ts \<noteq> None"
    for ts i c
    by (auto simp: escrow_key_def list_ex_iff find_None_iff)
  show ?thesis
    using assms(1) f
    by (auto simp: accept_writes_def update_by_Some m e transaction_create_def
          default_transaction_status_def Let_def
        split: Option.bind_splits if_splits)
qed

lemma find_by_accepted_bids:
  "find_by b_id bidId (accepted_bids bidId bid bs)
     = map_option (\<lambda>b. b\<lparr>b_status := ACCEPTED\<rparr>) (find_by b_id bidId bs)"
  by (induction bs) (auto simp: accepted_bids_def)

text \<open>
  Claim C1. Every successful call of the accept handler leaves all four
  writes in the store: the target bid is ACCEPTED, the project is IN_PROGRESS,
  every other PENDING bid of the project is REJECTED (and no other bid is
  touched), and exactly one transaction has been added, PENDING, for the
  amount of the accepted bid. Every call that does not succeed leaves the
  store as it was, also when one of the four writes throws after earlier ones
  were made: all four are kept or none.
\<close>

theorem acceptBid_atomic:
  "(\<forall>c acceptedBid transaction s'.
      acceptBid req_user bidId s = (Json c (acceptedBid, transaction), s') \<longrightarrow>
        (\<exists>bid project.
           find_by b_id bidId (bids s) = Some bid
         \<and> find_by p_id (b_projectId bid) (projects s) = Some project
         \<and> p_clientId project = u_id req_user \<and> p_status project = POSTED
         \<and> find_by b_id bidId (bids s') = Some acceptedBid
         \<and> acceptedBid = bid\<lparr>b_status := ACCEPTED\<rparr>
         \<and> project_status_of s' (b_projectId bid) = Some IN_PROGRESS
         \<and> bids s' = accepted_bids bidId bid (bids s)
         \<and> transactions s' = transactions s @ [transaction]
         \<and> t_status transaction = T_PENDING
         \<and> t_amount transaction = b_bidAmount bid
         \<and> t_projectId transaction = b_projectId bid
         \<and> t_clientId transaction = p_clientId project
         \<and> t_freelancerId transaction = b_freelancerId bid))
   \<and> (\<not> succeeded (fst (acceptBid req_user bidId s)) \<longrightarrow> snd (acceptBid req_user bidId s) = s)"
proof (intro conjI allI impI)
  fix c acceptedBid transaction s'
  assume ok: "acceptBid req_user bidId s = (Json c (acceptedBid, transaction), s')"
  then obtain bid project where
    b: "find_by b_id bidId (bids s) = Some bid" and
    p: "find_by p_id (b_projectId bid) (projects s) = Some project" and
    own: "p_clientId project = u_id req_user" and st: "p_status project = POSTED" and
    w: "accept_writes bidId bid project s = Some ((acceptedBid, transaction), s')"
    by (auto simp: acceptBid_def prisma_transaction_def split: option.splits if_splits prod.splits)
  note r = accept_writes_Some[OF w b]
  have "find_by b_id bidId (bids s') = Some acceptedBid"
    using r b by (simp add: find_by_accepted_bids)
  moreover have "project_status_of s' (b_projectId bid) = Some IN_PROGRESS"
    using r p by (simp add: project_status_of_def find_by_update_many)
  ultimately show "\<exists>bid project.
           find_by b_id bidId (bids s) = Some bid
         \<and> find_by p_id (b_projectId bid) (projects s) = Some project
         \<and> p_clientId project = u_id req_user \<and> p_status project = POSTED
         \<and> find_by b_id bidId (bids s') = Some acceptedBid
         \<and> acceptedBid = bid\<lparr>b_status := ACCEPTED\<rparr>
         \<and> project_status_of s' (b_projectId bid) = Some IN_PROGRESS
         \<and> bids s' = accepted_bids bidId bid (bids s)
         \<and> transactions s' = transactions s @ [transaction]
         \<and> t_status transaction = T_PENDING
         \<and> t_amount transaction = b_bidAmount bid
         \<and> t_projectId transaction = b_projectId bid
         \<and> t_clientId transaction = p_clientId project
         \<and> t_freelancerId transaction = b_freelancerId bid"
    using b p own st r by auto
next
  assume "\<not> succeeded (fst (acceptBid req_user bidId s))"
  then show "snd (acceptBid req_user bidId s) = s"
    by (auto simp: acceptBid_def prisma_transaction_def split: option.splits if_splits prod.splits)
qed

theorem acceptBid_atomic_witness:
  "acceptBid demo_ann 4 demo_store
     = (Json 200 (\<lparr>b_id = 4, b_projectId = 3, b_freelancerId = 1, b_bidAmount = 450,
                   b_estimatedTime = ''2d'', b_status = ACCEPTED\<rparr>,
                  \<lparr>t_id = 6, t_projectId = 3, t_clientId = 0, t_freelancerId = 1,
                   t_amount = 450, t_status = T_PENDING, t_stripePaymentId = None\<rparr>),
        demo_accepted)
   \<and> map b_status (bids demo_accepted) = [ACCEPTED, REJECTED]
   \<and> project_status_of demo_accepted 3 = Some IN_PROGRESS
   \<and> map t_amount (transactions demo_accepted) = [450]
   \<and> map t_status (transactions demo_accepted) = [T_PENDING]
   \<and> fst (acceptBid demo_ann 5 demo_reopened) = Error 500 ''Failed to accept bid''
   \<and> snd (acceptBid demo_ann 5 demo_reopened) = demo_reopened"
proof -
  let ?b = "\<lparr>b_id = 4, b_projectId = 3, b_freelancerId = 1, b_bidAmount = 450,
              b_estimatedTime = ''2d'', b_status = ACCEPTED\<rparr>"
  let ?t = "\<lparr>t_id = 6, t_projectId = 3, t_clientId = 0, t_freelancerId = 1,
              t_amount = 450, t_status = T_PENDING, t_stripePaymentId = None\<rparr>"
  have e: "acceptBid demo_ann 4 demo_store = (Json 200 (?b, ?t), demo_accepted)"
    by code_simp
  have ts: "transactions demo_store = []" and bs: "map b_status (bids demo_accepted) = [ACCEPTED, REJECTED]"
    by code_simp+
  have f: "fst (acceptBid demo_ann 5 demo_reopened) = Error 500 ''Failed to accept bid''"
    by code_simp
  note a = acceptBid_atomic[of demo_ann 4 demo_store]
  from a e obtain bid where
    q: "project_status_of demo_accepted (b_projectId bid) = Some IN_PROGRESS"
       "?b = bid\<lparr>b_status := ACCEPTED\<rparr>"
       "transactions demo_accepted = transactions demo_store @ [?t]"
    by blast
  have "b_projectId bid = b_projectId (bid\<lparr>b_status := ACCEPTED\<rparr>)"
    by simp
  also have "\<dots> = 3"
    unfolding q(2)[symmetric] by simp
  finally have 1: "project_status_of demo_accepted 3 = Some IN_PROGRESS"
    using q(1) by simp
  have 2: "transactions demo_accepted = [?t]"
    using q(3) ts by simp
  from acceptBid_atomic[of demo_ann 5 demo_reopened] f
  have 3: "snd (acceptBid demo_ann 5 demo_reopened) = demo_reopened"
    by simp
  from e bs 1 2 f 3 show ?thesis by simp
qed

section \<open>Settling an escrow transaction\<close>

lemma release_Json:
  assumes "release req_user transactionId s = (Json c t', s')"
  shows "\<exists>t. find_by t_id transactionId (transactions s) = Some t
            \<and> t_clientId t = u_id req_user \<and> t_status t = T_PENDING
            \<and> find_by p_id (t_projectId t) (projects s) \<noteq> None
            \<and> s' = s\<lparr>transactions := update_many (\<lambda>x. t_id x = transactionId)
                                        (\<lambda>t. t\<lparr>t_status := RELEASED\<rparr>) (transactions s),
                     projects := update_many (\<lambda>p. p_id p = t_projectId t)
                                   (\<lambda>p. p\<lparr>p_status := PAID\<rparr>) (projects s)\<rparr>"
  using assms
  by (auto simp: release_def update_by_Some Let_def split: option.splits if_splits)

lemma refund_Json:
  assumes "refund req_user transactionId s = (Json c t', s')"
  shows "\<exists>t. find_by t_id transactionId (transactions s) = Some t
            \<and> t_clientId t = u_id req_user \<and> t_status t = T_PENDING
            \<and> find_by p_id (t_projectId t) (projects s) \<noteq> None
            \<and> s' = s\<lparr>transactions := update_many (\<lambda>x. t_id x = transactionId)
                                        (\<lambda>t. t\<lparr>t_status := REFUNDED\<rparr>) (transactions s),
                     projects := update_many (\<lambda>p. p_id p = t_projectId t)
                                   (\<lambda>p. p\<lparr>p_status := CANCELLED\<rparr>) (projects s)\<rparr>"
  using assms
  by (auto simp: refund_def update_by_Some Let_def split: option.splits if_splits)

lemma settled_status:
  assumes "find_by t_id transactionId (transactions s) = Some t"
    and "find_by p_id (t_projectId t) (projects s) \<noteq> None"
    and "s' = s\<lparr>transactions := update_many (\<lambda>x. t_id x = transactionId)
                                   (\<lambda>t. t\<lparr>t_status := ts\<rparr>) (transactions s),
                projects := update_many (\<lambda>p. p_id p = t_projectId t)
                              (\<lambda>p. p\<lparr>p_status := ps\<rparr>) (projects s)\<rparr>"
  shows "transaction_status_of s' transactionId = Some ts"
    and "project_status_of s' (t_projectId t) = Some ps"
    and "find_by t_id transactionId (transactions s') = Some (t\<lparr>t_status := ts\<rparr>)"
  using assms
  by (auto simp: transaction_status_of_def project_status_of_def find_by_update_many)

text \<open>
  Claim C5. Every successful release, which only the payer of a PENDING
  transaction obtains, leaves the transaction RELEASED and its project PAID in
  the same resulting store; every successful refund leaves the transaction
  REFUNDED and its project CANCELLED.
\<close>

theorem settle_together:
  "(\<forall>c t' s'. release req_user transactionId s = (Json c t', s') \<longrightarrow>
      (\<exists>t. find_by t_id transactionId (transactions s) = Some t
          \<and> t_clientId t = u_id req_user \<and> t_status t = T_PENDING
          \<and> transaction_status_of s' transactionId = Some RELEASED
          \<and> project_status_of s' (t_projectId t) = Some PAID))
   \<and> (\<forall>c t' s'. refund req_user transactionId s = (Json c t', s') \<longrightarrow>
      (\<exists>t. find_by t_id transactionId (transactions s) = Some t
          \<and> t_clientId t = u_id req_user \<and> t_status t = T_PENDING
          \<and> transaction_status_of s' transactionId = Some REFUNDED
          \<and> project_status_of s' (t_projectId t) = Some CANCELLED))"
proof (intro conjI allI impI)
  fix c t' s'
  assume "release req_user transactionId s = (Json c t', s')"
  from release_Json[OF this] obtain t where
    t: "find_by t_id transactionId (transactions s) = Some t"
       "t_clientId t = u_id req_user" "t_status t = T_PENDING" and
    p: "find_by p_id (t_projectId t) (projects s) \<noteq> None" and
    s': "s' = s\<lparr>transactions := update_many (\<lambda>x. t_id x = transactionId)
                                   (\<lambda>t. t\<lparr>t_status := RELEASED\<rparr>) (transactions s),
                projects := update_many (\<lambda>p. p_id p = t_projectId t)
                              (\<lambda>p. p\<lparr>p_status := PAID\<rparr>) (projects s)\<rparr>"
    by blast
  from settled_status(1,2)[OF t(1) p s'] t
  show "\<exists>t. find_by t_id transactionId (transactions s) = Some t
          \<and> t_clientId t = u_id req_user \<and> t_status t = T_PENDING
          \<and> transaction_status_of s' transactionId = Some RELEASED
          \<and> project_status_of s' (t_projectId t) = Some PAID"
    by blast
next
  fix c t' s'
  assume "refund req_user transactionId s = (Json c t', s')"
  from refund_Json[OF this] obtain t where
    t: "find_by t_id transactionId (transactions s) = Some t"
       "t_clientId t = u_id req_user" "t_status t = T_PENDING" and
    p: "find_by p_id (t_projectId t) (projects s) \<noteq> None" and
    s': "s' = s\<lparr>transactions := update_many (\<lambda>x. t_id x = transactionId)
                                   (\<lambda>t. t\<lparr>t_status := REFUNDED\<rparr>) (transactions s),
                projects := update_many (\<lambda>p. p_id p = t_projectId t)
                              (\<lambda>p. p\<lparr>p_status := CANCELLED\<rparr>) (projects s)\<rparr>"
    by blast
  from settled_status(1,2)[OF t(1) p s'] t
  show "\<exists>t. find_by t_id transactionId (transactions s) = Some t
          \<and> t_clientId t = u_id req_user \<and> t_status t = T_PENDING
          \<and> transaction_status_of s' transactionId = Some REFUNDED
          \<and> project_status_of s' (t_projectId t) = Some CANCELLED"
    by blast
qed

theorem settle_together_witness:
  "succeeded (fst (release demo_ann 6 demo_accepted))
   \<and> snd (release demo_ann 6 demo_accepted) = demo_paid
   \<and> transaction_status_of demo_paid 6 = Some RELEASED
   \<and> project_status_of demo_paid 3 = Some PAID
   \<and> succeeded (fst (refund demo_ann 6 demo_accepted))
   \<and> transaction_status_of (snd (refund demo_ann 6 demo_accepted)) 6 = Some REFUNDED
   \<and> project_status_of (snd (refund demo_ann 6 demo_accepted)) 3 = Some CANCELLED"
proof -
  let ?t = "\<lparr>t_id = 6, t_projectId = 3, t_clientId = 0, t_freelancerId = 1,
              t_amount = 450, t_status = T_PENDING, t_stripePaymentId = None\<rparr>"
  have f: "find_by t_id 6 (transactions demo_accepted) = Some ?t"
    by code_simp
  have a: "release demo_ann 6 demo_accepted = (Json 200 (?t\<lparr>t_status := RELEASED\<rparr>), demo_paid)"
    by code_simp
  obtain s' where b: "refund demo_ann 6 demo_accepted = (Json 200 (?t\<lparr>t_status := REFUNDED\<rparr>), s')"
  proof -
    have "fst (refund demo_ann 6 demo_accepted) = Json 200 (?t\<lparr>t_status := REFUNDED\<rparr>)"
      by code_simp
    then show ?thesis
      using that by (cases "refund demo_ann 6 demo_accepted") simp
  qed
  note r = settle_together[of demo_ann 6 demo_accepted]
  from r a f have 1: "transaction_status_of demo_paid 6 = Some RELEASED
                      \<and> project_status_of demo_paid 3 = Some PAID"
    by fastforce
  from r b f have 2: "transaction_status_of s' 6 = Some REFUNDED
                      \<and> project_status_of s' 3 = Some CANCELLED"
    by fastforce
  from a b 1 2 show ?thesis by simp
qed

lemma settled_refused:
  assumes "find_by t_id transactionId (transactions s) = Some t"
    and "t_clientId t = u_id req_user" and "t_status t \<noteq> T_PENDING"
  shows "release req_user transactionId s = (Error 400 ''Payment cannot be released'', s)"
    and "refund req_user transactionId s = (Error 400 ''Payment cannot be refunded'', s)"
  using assms by (simp_all add: release_def refund_def)

text \<open>
  Claim C6. A release succeeds only on a PENDING transaction, and so does a
  refund. Once either has succeeded, a second release or refund by the payer
  fails with a Conflict (400) and leaves the store, so the transaction and
  the project, unchanged; the same holds for every transaction of the payer
  that is RELEASED or REFUNDED. For any caller at all, a release or refund of
  a RELEASED or REFUNDED transaction fails and changes nothing.
\<close>

theorem settle_once:
  "(\<forall>c t' s'. release req_user transactionId s = (Json c t', s') \<longrightarrow>
       transaction_status_of s transactionId = Some T_PENDING
     \<and> release req_user transactionId s' = (Error 400 ''Payment cannot be released'', s')
     \<and> refund req_user transactionId s' = (Error 400 ''Payment cannot be refunded'', s'))
   \<and> (\<forall>c t' s'. refund req_user transactionId s = (Json c t', s') \<longrightarrow>
       transaction_status_of s transactionId = Some T_PENDING
     \<and> release req_user transactionId s' = (Error 400 ''Payment cannot be released'', s')
     \<and> refund req_user transactionId s' = (Error 400 ''Payment cannot be refunded'', s'))
   \<and> (\<forall>t. find_by t_id transactionId (transactions s) = Some t \<and> t_clientId t = u_id req_user
           \<and> (t_status t = RELEASED \<or> t_status t = REFUNDED) \<longrightarrow>
         release req_user transactionId s = (Error 400 ''Payment cannot be released'', s)
       \<and> refund req_user transactionId s = (Error 400 ''Payment cannot be refunded'', s)
       \<and> is_conflict (fst (release req_user transactionId s))
       \<and> is_conflict (fst (refund req_user transactionId s)))
   \<and> (\<forall>t. find_by t_id transactionId (transactions s) = Some t
           \<and> (t_status t = RELEASED \<or> t_status t = REFUNDED) \<longrightarrow>
         \<not> succeeded (fst (release anyone transactionId s))
       \<and> snd (release anyone transactionId s) = s
       \<and> \<not> succeeded (fst (refund anyone transactionId s))
       \<and> snd (refund anyone transactionId s) = s)"
proof (intro conjI allI impI)
  fix c t' s'
  assume a: "release req_user transactionId s = (Json c t', s')"
  from release_Json[OF a] obtain t where
    t: "find_by t_id transactionId (transactions s) = Some t"
       "t_clientId t = u_id req_user" "t_status t = T_PENDING" and
    p: "find_by p_id (t_projectId t) (projects s) \<noteq> None" and
    s': "s' = s\<lparr>transactions := update_many (\<lambda>x. t_id x = transactionId)
                                   (\<lambda>t. t\<lparr>t_status := RELEASED\<rparr>) (transactions s),
                projects := update_many (\<lambda>p. p_id p = t_projectId t)
                              (\<lambda>p. p\<lparr>p_status := PAID\<rparr>) (projects s)\<rparr>"
    by blast
  note f = settled_status(3)[OF t(1) p s']
  show "transaction_status_of s transactionId = Some T_PENDING"
    using t by (simp add: transaction_status_of_def)
  show "release req_user transactionId s' = (Error 400 ''Payment cannot be released'', s')"
    using settled_refused(1)[OF f] t(2) by simp
  show "refund req_user transactionId s' = (Error 400 ''Payment cannot be refunded'', s')"
    using settled_refused(2)[OF f] t(2) by simp
next
  fix c t' s'
  assume a: "refund req_user transactionId s = (Json c t', s')"
  from refund_Json[OF a] obtain t where
    t: "find_by t_id transactionId (transactions s) = Some t"
       "t_clientId t = u_id req_user" "t_status t = T_PENDING" and
    p: "find_by p_id (t_projectId t) (projects s) \<noteq> None" and
    s': "s' = s\<lparr>transactions := update_many (\<lambda>x. t_id x = transactionId)
                                   (\<lambda>t. t\<lparr>t_status := REFUNDED\<rparr>) (transactions s),
                projects := update_many (\<lambda>p. p_id p = t_projectId t)
                              (\<lambda>p. p\<lparr>p_status := CANCELLED\<rparr>) (projects s)\<rparr>"
    by blast
  note f = settled_status(3)[OF t(1) p s']
  show "transaction_status_of s transactionId = Some T_PENDING"
    using t by (simp add: transaction_status_of_def)
  show "release req_user transactionId s' = (Error 400 ''Payment cannot be released'', s')"
    using settled_refused(1)[OF f] t(2) by simp
  show "refund req_user transactionId s' = (Error 400 ''Payment cannot be refunded'', s')"
    using settled_refused(2)[OF f] t(2) by simp
next
  fix t
  assume a: "find_by t_id transactionId (transactions s) = Some t \<and> t_clientId t = u_id req_user
           \<and> (t_status t = RELEASED \<or> t_status t = REFUNDED)"
  then have np: "t_status t \<noteq> T_PENDING" by auto
  from a have f: "find_by t_id transactionId (transactions s) = Some t"
    and o: "t_clientId t = u_id req_user"
    by simp_all
  show "release req_user transactionId s = (Error 400 ''Payment cannot be released'', s)"
    by (rule settled_refused(1)[OF f o np])
  show "refund req_user transactionId s = (Error 400 ''Payment cannot be refunded'', s)"
    by (rule settled_refused(2)[OF f o np])
  show "is_conflict (fst (release req_user transactionId s))"
    by (simp add: settled_refused(1)[OF f o np])
  show "is_conflict (fst (refund req_user transactionId s))"
    by (simp add: settled_refused(2)[OF f o np])
next
  fix t
  assume a: "find_by t_id transactionId (transactions s) = Some t
           \<and> (t_status t = RELEASED \<or> t_status t = REFUNDED)"
  then have f: "find_by t_id transactionId (transactions s) = Some t"
    and np: "t_status t \<noteq> T_PENDING"
    by auto
  show "\<not> succeeded (fst (release anyone transactionId s))"
    using f np by (simp add: release_def)
  show "snd (release anyone transactionId s) = s"
    using f np by (simp add: release_def)
  show "\<not> succeeded (fst (refund anyone transactionId s))"
    using f np by (simp add: refund_def)
  show "snd (refund anyone transactionId s) = s"
    using f np by (simp add: refund_def)
qed

theorem settle_once_witness:
  "release demo_ann 6 demo_accepted
     = (Json 200 \<lparr>t_id = 6, t_projectId = 3, t_clientId = 0, t_freelancerId = 1,
                  t_amount = 450, t_status = RELEASED, t_stripePaymentId = None\<rparr>, demo_paid)
   \<and> transaction_status_of demo_accepted 6 = Some T_PENDING
   \<and> release demo_ann 6 demo_paid = (Error 400 ''Payment cannot be released'', demo_paid)
   \<and> refund demo_ann 6 demo_paid = (Error 400 ''Payment cannot be refunded'', demo_paid)"
proof -
  have a: "release demo_ann 6 demo_accepted
     = (Json 200 \<lparr>t_id = 6, t_projectId = 3, t_clientId = 0, t_freelancerId = 1,
                  t_amount = 450, t_status = RELEASED, t_stripePaymentId = None\<rparr>, demo_paid)"
    by code_simp
  from settle_once[of demo_ann 6 demo_accepted] a show ?thesis
    by blast
qed

section \<open>Reviews\<close>

text \<open>
  Claim C8. On a request the validators accept and a project that exists, the
  handler of POST /reviews answers in this order: a Conflict (400) unless the
  project's status is COMPLETED or PAID; Forbidden (403) unless the caller is
  the project's owner or the freelancer of an ACCEPTED bid on it; a Conflict
  (400) if a review with the same project, reviewer and reviewee exists. So
  a call succeeds only if all three conditions are met, and each refusal
  leaves the store untouched.
\<close>

theorem createReview_refusals:
  assumes valid: "vb_projectId body = Some projectId" "vb_revieweeId body = Some revieweeId"
      "vb_rating body = Some rating" "1 \<le> rating" "rating \<le> 5" "valid_comment (vb_comment body)"
    and proj: "find_by p_id projectId (projects s) = Some project"
  shows "(p_status project \<noteq> COMPLETED \<and> p_status project \<noteq> PAID \<longrightarrow>
            createReview req_user body s
              = (Error 400 ''Project must be completed before reviewing'', s))
       \<and> ((p_status project = COMPLETED \<or> p_status project = PAID)
            \<and> p_clientId project \<noteq> u_id req_user
            \<and> \<not> (\<exists>b\<in>set (bids s). b_projectId b = projectId \<and> b_status b = ACCEPTED
                                    \<and> b_freelancerId b = u_id req_user) \<longrightarrow>
            createReview req_user body s
              = (Error 403 ''Not authorized to review this project'', s))
       \<and> ((p_status project = COMPLETED \<or> p_status project = PAID)
            \<and> (p_clientId project = u_id req_user
                \<or> (\<exists>b\<in>set (bids s). b_projectId b = projectId \<and> b_status b = ACCEPTED
                                      \<and> b_freelancerId b = u_id req_user))
            \<and> (\<exists>r\<in>set (reviews s). r_projectId r = projectId \<and> r_reviewerId r = u_id req_user
                                      \<and> r_revieweeId r = revieweeId) \<longrightarrow>
            createReview req_user body s
              = (Error 400 ''You have already reviewed this user for this project'', s))
       \<and> (succeeded (fst (createReview req_user body s)) \<longrightarrow>
            (p_status project = COMPLETED \<or> p_status project = PAID)
            \<and> (p_clientId project = u_id req_user
                \<or> (\<exists>b\<in>set (bids s). b_projectId b = projectId \<and> b_status b = ACCEPTED
                                      \<and> b_freelancerId b = u_id req_user))
            \<and> \<not> (\<exists>r\<in>set (reviews s). r_projectId r = projectId \<and> r_reviewerId r = u_id req_user
                                      \<and> r_revieweeId r = revieweeId))"
  using valid proj
  by (auto simp: createReview_def Let_def list_ex_iff find_None_iff
           split: option.splits)

theorem createReview_refusals_witness:
  "createReview demo_ann demo_review_body demo_store
     = (Error 400 ''Project must be completed before reviewing'', demo_store)
   \<and> createReview demo_cat demo_review_body demo_paid
     = (Error 403 ''Not authorized to review this project'', demo_paid)
   \<and> createReview demo_ann demo_review_body demo_reviewed
     = (Error 400 ''You have already reviewed this user for this project'', demo_reviewed)
   \<and> succeeded (fst (createReview demo_ann demo_review_body demo_paid))"
proof -
  have v: "vb_projectId demo_review_body = Some 3" "vb_revieweeId demo_review_body = Some 1"
      "vb_rating demo_review_body = Some 5" "(1::int) \<le> 5" "(5::int) \<le> 5"
      "valid_comment (vb_comment demo_review_body)"
    by (simp_all add: demo_review_body_def valid_comment_def)
  have 1: "find_by p_id 3 (projects demo_store) = Some demo_project"
    "p_status demo_project = POSTED"
    by code_simp+
  have 2: "find_by p_id 3 (projects demo_paid) = Some (demo_project\<lparr>p_status := PAID\<rparr>)"
    "p_clientId (demo_project\<lparr>p_status := PAID\<rparr>) \<noteq> u_id demo_cat"
    "\<not> list_ex (\<lambda>b. b_projectId b = 3 \<and> b_status b = ACCEPTED \<and> b_freelancerId b = u_id demo_cat)
         (bids demo_paid)"
    by code_simp+
  have 3: "find_by p_id 3 (projects demo_reviewed) = Some (demo_project\<lparr>p_status := PAID\<rparr>)"
    "p_clientId (demo_project\<lparr>p_status := PAID\<rparr>) = u_id demo_ann"
    "list_ex (\<lambda>r. r_projectId r = 3 \<and> r_reviewerId r = u_id demo_ann \<and> r_revieweeId r = 1)
         (reviews demo_reviewed)"
    by code_simp+
  have 4: "succeeded (fst (createReview demo_ann demo_review_body demo_paid))"
    by code_simp
  from createReview_refusals[OF v 1(1), of demo_ann] 1(2)
  have a: "createReview demo_ann demo_review_body demo_store
     = (Error 400 ''Project must be completed before reviewing'', demo_store)"
    by simp
  from createReview_refusals[OF v 2(1), of demo_cat] 2(2,3)
  have b: "createReview demo_cat demo_review_body demo_paid
     = (Error 403 ''Not authorized to review this project'', demo_paid)"
    by (simp add: list_ex_iff)
  from createReview_refusals[OF v 3(1), of demo_ann] 3(2,3)
  have c: "createReview demo_ann demo_review_body demo_reviewed
     = (Error 400 ''You have already reviewed this user for this project'', demo_reviewed)"
    by (simp add: list_ex_iff)
  from a b c 4 show ?thesis by simp
qed

subsection \<open>The aggregate rating\<close>

lemma foldl_ratings: "foldl (\<lambda>sum r. sum + r_rating r) a rs = a + sum_list (map r_rating rs)"
  by (induction rs arbitrary: a) simp_all

lemma averageRating_mean: "averageRating rs = arithmetic_mean (map r_rating rs)"
  by (simp add: averageRating_def arithmetic_mean_def foldl_ratings)

lemma Math_round_near: "\<bar>of_int (Math_round x) / 10 - x / 10\<bar> \<le> (1 / 20 :: rat)"
proof -
  have "of_int \<lfloor>x + 1 / 2\<rfloor> \<le> x + 1 / 2" and "x + 1 / 2 < of_int \<lfloor>x + 1 / 2\<rfloor> + 1"
    by linarith+
  then have "\<bar>of_int \<lfloor>x + 1 / 2\<rfloor> - x\<bar> \<le> 1 / 2"
    by linarith
  then show ?thesis
    unfolding Math_round_def by (simp add: field_simps abs_le_iff)
qed

lemma rounded_rating_rounded:
  "rounded_to_one_decimal (rounded_rating rs) (arithmetic_mean (map r_rating rs))"
  using Math_round_near[of "averageRating rs * 10"]
  by (simp add: rounded_to_one_decimal_def rounded_rating_def averageRating_mean)

lemma update_user_rating_Some:
  assumes "update_user_rating i s = Some s'"
  shows "stored_rating s' i = Some (rounded_rating (received s' i)) \<and> reviews s' = reviews s"
  using assms
  by (auto simp: update_user_rating_def stored_rating_def received_def Let_def update_by_Some
                 find_by_update_many split: option.splits)

lemma createReview_Json:
  assumes "createReview req_user body s = (Json c review, s')"
  shows "\<exists>s1. review_create s (r_projectId review) (u_id req_user) (r_revieweeId review)
                 (r_rating review) (r_comment review) = Some (review, s1)
             \<and> update_user_rating (r_revieweeId review) s1 = Some s'"
  using assms
  by (auto simp: createReview_def review_create_def Let_def split: option.splits if_splits)

lemma updateReview_Json:
  assumes "updateReview req_user reviewId body s = (Json c review, s')" "rating_given body"
  shows "\<exists>s1. update_user_rating (r_revieweeId review) s1 = Some s'"
  using assms
  by (auto simp: updateReview_def update_by_Some review_updateData_def Let_def
           split: option.splits if_splits)

text \<open>
  Claim C7. After every successful review creation, and after every
  successful review update that carries a rating, the rating stored on the
  reviewee's account is the arithmetic mean of all ratings the reviewee has
  received (the new or changed one among them), rounded to one decimal place;
  for the ratings 5, 4 and 5 the stored value is 4.7.
\<close>

theorem aggregate_rating_is_rounded_mean:
  "(\<forall>c review s'. createReview req_user body s = (Json c review, s') \<longrightarrow>
       review \<in> set (received s' (r_revieweeId review))
     \<and> stored_rating s' (r_revieweeId review)
         = Some (rounded_rating (received s' (r_revieweeId review)))
     \<and> rounded_to_one_decimal (rounded_rating (received s' (r_revieweeId review)))
         (arithmetic_mean (map r_rating (received s' (r_revieweeId review)))))
   \<and> (\<forall>c review s'. updateReview req_user reviewId body' s = (Json c review, s')
                      \<and> rating_given body' \<longrightarrow>
       stored_rating s' (r_revieweeId review)
         = Some (rounded_rating (received s' (r_revieweeId review)))
     \<and> rounded_to_one_decimal (rounded_rating (received s' (r_revieweeId review)))
         (arithmetic_mean (map r_rating (received s' (r_revieweeId review)))))
   \<and> (\<forall>r1 r2 r3. map r_rating [r1, r2, r3] = [5, 4, 5] \<longrightarrow> rounded_rating [r1, r2, r3] = 47 / 10)"
proof (intro conjI allI impI)
  fix c review s'
  assume a: "createReview req_user body s = (Json c review, s')"
  from createReview_Json[OF a] obtain s1 where
    rc: "review_create s (r_projectId review) (u_id req_user) (r_revieweeId review)
                 (r_rating review) (r_comment review) = Some (review, s1)" and
    up: "update_user_rating (r_revieweeId review) s1 = Some s'"
    by blast
  from rc have "review \<in> set (reviews s1)"
    by (auto simp: review_create_def Let_def split: if_splits)
  with update_user_rating_Some[OF up]
  show "review \<in> set (received s' (r_revieweeId review))"
    by (simp add: received_def)
  show "stored_rating s' (r_revieweeId review)
         = Some (rounded_rating (received s' (r_revieweeId review)))"
    using update_user_rating_Some[OF up] by simp
  show "rounded_to_one_decimal (rounded_rating (received s' (r_revieweeId review)))
         (arithmetic_mean (map r_rating (received s' (r_revieweeId review))))"
    by (rule rounded_rating_rounded)
next
  fix c review s'
  assume a: "updateReview req_user reviewId body' s = (Json c review, s') \<and> rating_given body'"
  from updateReview_Json[of req_user reviewId body' s c review s'] a obtain s1 where
    up: "update_user_rating (r_revieweeId review) s1 = Some s'"
    by blast
  show "stored_rating s' (r_revieweeId review)
         = Some (rounded_rating (received s' (r_revieweeId review)))"
    using update_user_rating_Some[OF up] by simp
  show "rounded_to_one_decimal (rounded_rating (received s' (r_revieweeId review)))
         (arithmetic_mean (map r_rating (received s' (r_revieweeId review))))"
    by (rule rounded_rating_rounded)
next
  fix r1 r2 r3 :: review
  assume "map r_rating [r1, r2, r3] = [5, 4, 5]"
  then show "rounded_rating [r1, r2, r3] = 47 / 10"
    by (simp add: rounded_rating_def averageRating_def Math_round_def floor_eq_iff)
qed

theorem aggregate_rating_is_rounded_mean_witness:
  "createReview demo_ann demo_review_body demo_paid = (Json 201 (demo_review 5), demo_reviewed)
   \<and> stored_rating demo_reviewed 1 = Some 5
   \<and> fst (updateReview demo_ann 7 demo_rating_update demo_reviewed) = Json 200 (demo_review 4)
   \<and> stored_rating (snd (updateReview demo_ann 7 demo_rating_update demo_reviewed)) 1 = Some 4
   \<and> rounded_rating [demo_review 5, demo_review 4, demo_review 5] = 47 / 10"
proof -
  have a: "createReview demo_ann demo_review_body demo_paid
             = (Json 201 (demo_review 5), demo_reviewed)"
    by code_simp
  obtain s' where b: "updateReview demo_ann 7 demo_rating_update demo_reviewed
                        = (Json 200 (demo_review 4), s')"
  proof -
    have "fst (updateReview demo_ann 7 demo_rating_update demo_reviewed)
            = Json 200 (demo_review 4)"
      by code_simp
    then show ?thesis
      using that by (cases "updateReview demo_ann 7 demo_rating_update demo_reviewed") simp
  qed
  have g: "rating_given demo_rating_update"
    by (simp add: rating_given_def demo_rating_update_def)
  have m: "map r_rating [demo_review 5, demo_review 4, demo_review 5] = [5, 4, 5]"
    by (simp add: demo_review_def)
  have e1: "rounded_rating (received demo_reviewed 1) = 5"
    by code_simp
  have e2: "rounded_rating (received (snd (updateReview demo_ann 7 demo_rating_update
                                              demo_reviewed)) 1) = 4"
    by code_simp
  note r = aggregate_rating_is_rounded_mean[of demo_ann demo_review_body demo_paid 7
             demo_rating_update]
  have 1: "stored_rating demo_reviewed (r_revieweeId (demo_review 5))
              = Some (rounded_rating (received demo_reviewed (r_revieweeId (demo_review 5))))"
    using r[THEN conjunct1, rule_format, OF a] by simp
  note r' = aggregate_rating_is_rounded_mean[of demo_ann demo_review_body demo_reviewed 7
              demo_rating_update]
  have 2: "stored_rating s' (r_revieweeId (demo_review 4))
              = Some (rounded_rating (received s' (r_revieweeId (demo_review 4))))"
    using r'[THEN conjunct2, THEN conjunct1, rule_format, OF conjI[OF b g]] by simp
  have 3: "rounded_rating [demo_review 5, demo_review 4, demo_review 5] = 47 / 10"
    by (rule r[THEN conjunct2, THEN conjunct2, rule_format, OF m])
  have i: "r_revieweeId (demo_review k) = 1" for k
    by (simp add: demo_review_def)
  from a b 1 2 3 e1 e2 show ?thesis
    by (simp add: i)
qed

section \<open>At most one accepted bid per project\<close>

subsection \<open>The identifiers stay fresh\<close>

lemma ids_below_Suc: "ids_below bs ps n \<Longrightarrow> ids_below bs ps (Suc n)"
  by (auto simp: ids_below_def list_all_iff less_Suc_eq)

lemma ids_below_new_project:
  "ids_below bs ps n \<Longrightarrow> p_id p = n \<Longrightarrow> ids_below bs (ps @ [p]) (Suc n)"
  by (auto simp: ids_below_def list_all_iff less_Suc_eq)

lemma ids_below_new_bid:
  "ids_below bs ps n \<Longrightarrow> b_id b = n \<Longrightarrow> b_projectId b < n \<Longrightarrow> ids_below (bs @ [b]) ps (Suc n)"
  by (auto simp: ids_below_def list_all_iff less_Suc_eq)

lemma ids_below_update_projects:
  "ids_below bs ps n \<Longrightarrow> (\<And>x. p_id (f x) = p_id x) \<Longrightarrow> ids_below bs (update_many P f ps) n"
  by (auto simp: ids_below_def list_all_iff update_many_def)

lemma ids_below_update_bids:
  "ids_below bs ps n \<Longrightarrow> (\<And>x. b_id (f x) = b_id x) \<Longrightarrow> (\<And>x. b_projectId (f x) = b_projectId x)
     \<Longrightarrow> ids_below (update_many P f bs) ps n"
  by (auto simp: ids_below_def list_all_iff map_key_update_many) (auto simp: update_many_def)

lemma ids_below_filter:
  "ids_below bs ps n \<Longrightarrow> ids_below (filter P bs) (filter Q ps) n"
  by (auto simp: ids_below_def list_all_iff distinct_map_filter)

subsection \<open>An accepted bid has its escrow transaction\<close>

lemma escrow_key_append: "escrow_key ts i c \<Longrightarrow> escrow_key (ts @ [t]) i c"
  by (auto simp: escrow_key_def list_ex_iff)

lemma escrow_key_update_many:
  "(\<And>x. t_projectId (f x) = t_projectId x) \<Longrightarrow> (\<And>x. t_clientId (f x) = t_clientId x)
     \<Longrightarrow> escrow_key (update_many P f ts) i c = escrow_key ts i c"
  by (induction ts) (auto simp: escrow_key_def update_many_def)

lemma escrow_key_filter:
  "i \<noteq> j \<Longrightarrow> escrow_key (filter (\<lambda>t. t_projectId t \<noteq> j) ts) i c = escrow_key ts i c"
  by (induction ts) (auto simp: escrow_key_def)

lemma escrow_new_transaction:
  "accepted_have_escrow bs ps ts \<Longrightarrow> accepted_have_escrow bs ps (ts @ [t])"
  by (auto simp: accepted_have_escrow_def list_all_iff escrow_key_append split: option.splits)

lemma escrow_update_transactions:
  assumes "accepted_have_escrow bs ps ts" "\<And>x. t_projectId (f x) = t_projectId x"
    "\<And>x. t_clientId (f x) = t_clientId x"
  shows "accepted_have_escrow bs ps (update_many P f ts)"
  using assms(1)
  by (auto simp: accepted_have_escrow_def list_all_iff escrow_key_update_many[of f, OF assms(2,3)]
           split: option.splits)

lemma escrow_update_projects:
  "accepted_have_escrow bs ps ts \<Longrightarrow> (\<And>x. p_id (f x) = p_id x)
     \<Longrightarrow> (\<And>x. p_clientId (f x) = p_clientId x)
     \<Longrightarrow> accepted_have_escrow bs (update_many P f ps) ts"
  by (auto simp: accepted_have_escrow_def list_all_iff find_by_update_many_key split: option.splits)

lemma escrow_new_project:
  assumes "accepted_have_escrow bs ps ts" "ids_below bs ps n" "p_id p = n"
  shows "accepted_have_escrow bs (ps @ [p]) ts"
proof -
  have "find_by p_id (b_projectId b) (ps @ [p]) = find_by p_id (b_projectId b) ps"
    if "b \<in> set bs" for b
  proof -
    from that assms(2) have "b_projectId b \<noteq> p_id p"
      by (auto simp: ids_below_def list_all_iff assms(3))
    then show ?thesis
      by (auto simp: find_by_append split: option.splits)
  qed
  with assms(1) show ?thesis
    by (simp add: accepted_have_escrow_def list_all_iff)
qed

lemma escrow_new_bid:
  "accepted_have_escrow bs ps ts \<Longrightarrow> b_status b \<noteq> ACCEPTED \<Longrightarrow> accepted_have_escrow (bs @ [b]) ps ts"
  by (simp add: accepted_have_escrow_def)

lemma escrow_update_bids:
  "accepted_have_escrow bs ps ts \<Longrightarrow> (\<And>x. b_projectId (f x) = b_projectId x)
     \<Longrightarrow> (\<And>x. b_status (f x) \<noteq> ACCEPTED)
     \<Longrightarrow> accepted_have_escrow (update_many P f bs) ps ts"
  by (auto simp: accepted_have_escrow_def list_all_iff update_many_def)

lemma escrow_cascade:
  "accepted_have_escrow bs ps ts \<Longrightarrow>
   accepted_have_escrow (filter (\<lambda>b. b_projectId b \<noteq> j) bs) (filter (\<lambda>p. p_id p \<noteq> j) ps)
     (filter (\<lambda>t. t_projectId t \<noteq> j) ts)"
  by (auto simp: accepted_have_escrow_def list_all_iff find_by_filter escrow_key_filter
           split: option.splits)

lemma escrow_delete_unreferenced:
  "accepted_have_escrow bs ps ts \<Longrightarrow> \<forall>b\<in>set bs. b_projectId b \<noteq> j \<Longrightarrow>
   accepted_have_escrow bs (filter (\<lambda>p. p_id p \<noteq> j) ps) ts"
  by (auto simp: accepted_have_escrow_def list_all_iff find_by_filter split: option.splits)

subsection \<open>At most one accepted bid\<close>

lemma one_accepted_new_bid:
  "one_accepted bs \<Longrightarrow> b_status b \<noteq> ACCEPTED \<Longrightarrow> one_accepted (bs @ [b])"
  by (simp add: one_accepted_def accepted_on_def)

lemma one_accepted_update_bids:
  assumes "one_accepted bs" "\<And>x. b_projectId (f x) = b_projectId x" "\<And>x. b_status (f x) \<noteq> ACCEPTED"
  shows "one_accepted (update_many P f bs)"
proof -
  have "length (accepted_on (update_many P f bs) i) \<le> length (accepted_on bs i)" for i
    using assms(2,3) by (induction bs) (auto simp: accepted_on_def update_many_def)
  with assms(1) show ?thesis
    unfolding one_accepted_def by (meson le_trans)
qed

lemma one_accepted_filter:
  assumes "one_accepted bs"
  shows "one_accepted (filter P bs)"
proof -
  have "length (accepted_on (filter P bs) i) \<le> length (accepted_on bs i)" for i
    by (induction bs) (auto simp: accepted_on_def)
  with assms show ?thesis
    unfolding one_accepted_def by (meson le_trans)
qed


subsection \<open>Accepting a bid\<close>

lemma accepted_on_accepted_bids:
  "length (accepted_on (accepted_bids bidId bid bs) i)
     = length (filter (\<lambda>b. b_projectId b = i \<and> (b_id b = bidId \<or> b_status b = ACCEPTED)) bs)"
  by (induction bs) (auto simp: accepted_on_def accepted_bids_def)

lemma one_accepted_accept:
  assumes one: "one_accepted bs" and d: "distinct (map b_id bs)"
    and b: "find_by b_id bidId bs = Some bid"
    and none: "accepted_on bs (b_projectId bid) = []"
  shows "one_accepted (accepted_bids bidId bid bs)"
  unfolding one_accepted_def
proof
  fix i
  from b have bin: "bid \<in> set bs" and bk: "b_id bid = bidId"
    using find_by_Some by fastforce+
  have u: "x = bid" if "x \<in> set bs" "b_id x = bidId" for x
    using distinct_key_unique[OF d that(1) bin] that(2) bk by simp
  show "length (accepted_on (accepted_bids bidId bid bs) i) \<le> 1"
  proof (cases "i = b_projectId bid")
    case True
    have na: "b_status x \<noteq> ACCEPTED" if "x \<in> set bs" "b_projectId x = i" for x
      using none that True by (auto simp: accepted_on_def filter_empty_conv)
    have "filter (\<lambda>b. b_projectId b = i \<and> (b_id b = bidId \<or> b_status b = ACCEPTED)) bs
            = filter (\<lambda>b. b_id b = bidId) bs"
      by (rule filter_cong) (use na u True in auto)
    then show ?thesis
      using distinct_key_filter[OF d, of bidId] by (simp add: accepted_on_accepted_bids)
  next
    case False
    have "filter (\<lambda>b. b_projectId b = i \<and> (b_id b = bidId \<or> b_status b = ACCEPTED)) bs
            = accepted_on bs i"
      unfolding accepted_on_def by (rule filter_cong) (use u False in auto)
    then show ?thesis
      using one by (simp add: accepted_on_accepted_bids one_accepted_def)
  qed
qed

lemma map_b_id_accepted_bids: "map b_id (accepted_bids bidId bid bs) = map b_id bs"
  by (induction bs) (auto simp: accepted_bids_def)

lemma ids_below_accept:
  "ids_below bs ps n \<Longrightarrow> ids_below (accepted_bids bidId bid bs) ps n"
  by (auto simp: ids_below_def map_b_id_accepted_bids) (auto simp: list_all_iff accepted_bids_def)

lemma escrow_accept:
  assumes e: "accepted_have_escrow bs ps ts"
    and d: "distinct (map b_id bs)" and b: "find_by b_id bidId bs = Some bid"
    and p: "find_by p_id (b_projectId bid) ps = Some project"
    and t: "t_projectId t = b_projectId bid" "t_clientId t = p_clientId project"
  shows "accepted_have_escrow (accepted_bids bidId bid bs)
           (update_many (\<lambda>p. p_id p = b_projectId bid) (\<lambda>p. p\<lparr>p_status := IN_PROGRESS\<rparr>) ps)
           (ts @ [t])"
proof -
  let ?ps = "update_many (\<lambda>p. p_id p = b_projectId bid) (\<lambda>p. p\<lparr>p_status := IN_PROGRESS\<rparr>) ps"
  have old: "accepted_have_escrow bs ?ps (ts @ [t])"
    by (intro escrow_new_transaction escrow_update_projects e) simp_all
  have new: "escrow_key (ts @ [t]) (b_projectId bid) (p_clientId project)"
    using t by (simp add: escrow_key_def)
  have fp: "find_by p_id (b_projectId bid) ?ps = Some (project\<lparr>p_status := IN_PROGRESS\<rparr>)"
    using p by (simp add: find_by_update_many)
  from b have bin: "bid \<in> set bs" and bk: "b_id bid = bidId"
    using find_by_Some by fastforce+
  have u: "x = bid" if "x \<in> set bs" "b_id x = bidId" for x
    using distinct_key_unique[OF d that(1) bin] that(2) bk by simp
  show ?thesis
    using old new fp u
    by (auto simp: accepted_have_escrow_def list_all_iff accepted_bids_def split: if_splits)
qed

lemma store_inv_accept_writes:
  assumes inv: "store_inv s"
    and b: "find_by b_id bidId (bids s) = Some bid"
    and p: "find_by p_id (b_projectId bid) (projects s) = Some project"
    and w: "accept_writes bidId bid project s = Some (r, s')"
  shows "store_inv s'"
proof -
  obtain acceptedBid transaction where r: "r = (acceptedBid, transaction)"
    by (cases r)
  note a = accept_writes_Some[OF w[unfolded r] b]
  from a have tr: "t_projectId transaction = b_projectId bid"
      "t_clientId transaction = p_clientId project"
    by simp_all
  from a have s': "s' = s\<lparr>bids := accepted_bids bidId bid (bids s),
                projects := update_many (\<lambda>p. p_id p = b_projectId bid)
                              (\<lambda>p. p\<lparr>p_status := IN_PROGRESS\<rparr>) (projects s),
                transactions := transactions s @ [transaction],
                next_id := Suc (next_id s)\<rparr>"
    by simp
  from a have nokey: "\<not> escrow_key (transactions s) (b_projectId bid) (p_clientId project)"
    by simp
  from inv have i1: "ids_below (bids s) (projects s) (next_id s)"
    and i2: "accepted_have_escrow (bids s) (projects s) (transactions s)"
    and i3: "one_accepted (bids s)"
    by (simp_all add: store_inv_def)
  have none: "accepted_on (bids s) (b_projectId bid) = []"
    using i2 nokey p
    by (auto simp: accepted_on_def filter_empty_conv accepted_have_escrow_def list_all_iff)
  from i1 have d: "distinct (map b_id (bids s))"
    by (simp add: ids_below_def)
  have "ids_below (bids s') (projects s') (next_id s')"
    unfolding s' using i1
    by (simp add: ids_below_Suc ids_below_accept ids_below_update_projects)
  moreover have "accepted_have_escrow (bids s') (projects s') (transactions s')"
    unfolding s' using escrow_accept[OF i2 d b p tr] by simp
  moreover have "one_accepted (bids s')"
    unfolding s' using one_accepted_accept[OF i3 d b none] by simp
  ultimately show ?thesis
    by (simp add: store_inv_def)
qed


subsection \<open>Every handler keeps the invariant\<close>

lemma project_updateData_keys:
  "p_id (project_updateData body p) = p_id p" "p_clientId (project_updateData body p) = p_clientId p"
  by (simp_all add: project_updateData_def Let_def split: option.splits)

lemma ids_below_filter_projects:
  "ids_below bs ps n \<Longrightarrow> ids_below bs (filter Q ps) n"
  using ids_below_filter[of bs ps n "\<lambda>_. True" Q] by simp

lemma store_inv_authenticated:
  assumes "store_inv s" "\<And>req_user. store_inv (snd (handler req_user))"
  shows "store_inv (snd (authenticated s caller roles handler))"
  using assms by (simp add: authenticated_def split: option.splits)

lemma store_inv_register: "store_inv s \<Longrightarrow> store_inv (snd (register env body s))"
  by (simp add: register_def store_inv_def Let_def ids_below_Suc split: option.splits)

lemma store_inv_updateProfile:
  "store_inv s \<Longrightarrow> store_inv (snd (updateProfile env req_user body s))"
  by (simp add: updateProfile_def store_inv_def Let_def split: option.splits)

lemma store_inv_createProject:
  "store_inv s \<Longrightarrow> store_inv (snd (createProject env req_user body s))"
  by (auto simp: createProject_def store_inv_def Let_def split: option.splits
           intro: ids_below_new_project escrow_new_project)

lemma store_inv_updateProject:
  "store_inv s \<Longrightarrow> store_inv (snd (updateProject env req_user projectId body s))"
  by (auto simp: updateProject_def store_inv_def update_by_Some project_updateData_keys
           split: option.splits
           intro!: ids_below_update_projects escrow_update_projects)

lemma store_inv_cascade:
  assumes "store_inv s"
  shows "store_inv (s\<lparr>projects := filter (\<lambda>p. p_id p \<noteq> j) (projects s),
                      bids := filter (\<lambda>b. b_projectId b \<noteq> j) (bids s),
                      transactions := filter (\<lambda>t. t_projectId t \<noteq> j) (transactions s),
                      reviews := rs\<rparr>)"
  using assms
  by (simp add: store_inv_def ids_below_filter escrow_cascade one_accepted_filter)

lemma store_inv_delete_unreferenced:
  assumes "store_inv s" "find (\<lambda>b. b_projectId b = j) (bids s) = None"
  shows "store_inv (s\<lparr>projects := filter (\<lambda>p. p_id p \<noteq> j) (projects s)\<rparr>)"
proof -
  from assms(2) have "\<forall>b\<in>set (bids s). b_projectId b \<noteq> j"
    by (simp add: find_None_iff)
  with assms(1) show ?thesis
    by (simp add: store_inv_def ids_below_filter_projects escrow_delete_unreferenced)
qed

lemma store_inv_deleteProject:
  "store_inv s \<Longrightarrow> store_inv (snd (deleteProject env req_user projectId s))"
  by (simp add: deleteProject_def store_inv_cascade store_inv_delete_unreferenced
           split: option.splits)

lemma store_inv_createBid:
  assumes "store_inv s"
  shows "store_inv (snd (createBid req_user body s))"
proof -
  have lt: "projectId < next_id s" if "find_by p_id projectId (projects s) = Some project"
    for projectId project
    using find_by_Some[OF that] assms by (auto simp: store_inv_def ids_below_def list_all_iff)
  show ?thesis
    using assms
    by (auto simp: createBid_def bid_create_def store_inv_def default_bid_status_def Let_def
             split: option.splits
             intro!: ids_below_new_bid escrow_new_bid one_accepted_new_bid dest: lt)
qed

lemma store_inv_acceptBid:
  assumes "store_inv s"
  shows "store_inv (snd (acceptBid req_user bidId s))"
proof (cases "find_by b_id bidId (bids s)")
  case None
  with assms show ?thesis by (simp add: acceptBid_def)
next
  case (Some bid)
  show ?thesis
  proof (cases "find_by p_id (b_projectId bid) (projects s)")
    case None
    with Some assms show ?thesis by (simp add: acceptBid_def)
  next
    case p: (Some project)
    show ?thesis
    proof (cases "accept_writes bidId bid project s")
      case None
      with Some p assms show ?thesis
        by (simp add: acceptBid_def prisma_transaction_def)
    next
      case w: (Some a)
      obtain r s' where a: "a = (r, s')" by (cases a)
      from store_inv_accept_writes[OF assms Some p w[unfolded a]] Some p w a assms
      show ?thesis
        by (simp add: acceptBid_def prisma_transaction_def)
    qed
  qed
qed

lemma store_inv_rejectBid:
  "store_inv s \<Longrightarrow> store_inv (snd (rejectBid req_user bidId s))"
  by (auto simp: rejectBid_def store_inv_def update_by_Some split: option.splits
           intro!: ids_below_update_bids escrow_update_bids one_accepted_update_bids)

lemma store_inv_confirmPayment:
  "store_inv s \<Longrightarrow> store_inv (snd (confirmPayment env req_user body s))"
  by (auto simp: confirmPayment_def transaction_create_def store_inv_def Let_def
           split: option.splits
           intro!: ids_below_Suc escrow_new_transaction escrow_update_transactions)

lemma store_inv_release:
  "store_inv s \<Longrightarrow> store_inv (snd (release req_user transactionId s))"
  by (auto simp: release_def store_inv_def update_by_Some Let_def split: option.splits
           intro!: ids_below_update_projects escrow_update_projects escrow_update_transactions)

lemma store_inv_refund:
  "store_inv s \<Longrightarrow> store_inv (snd (refund req_user transactionId s))"
  by (auto simp: refund_def store_inv_def update_by_Some Let_def split: option.splits
           intro!: ids_below_update_projects escrow_update_projects escrow_update_transactions)

lemma store_inv_createReview:
  "store_inv s \<Longrightarrow> store_inv (snd (createReview req_user body s))"
  by (auto simp: createReview_def review_create_def update_user_rating_def store_inv_def Let_def
           split: option.splits if_splits intro!: ids_below_Suc)

lemma store_inv_updateReview:
  "store_inv s \<Longrightarrow> store_inv (snd (updateReview req_user reviewId body s))"
  by (auto simp: updateReview_def update_user_rating_def store_inv_def Let_def
           split: option.splits if_splits)

lemma store_inv_step: "store_inv s \<Longrightarrow> store_inv (step env request s)"
proof (cases request)
qed (simp_all add: put_profile_def post_projects_def put_projects_def delete_projects_def
       post_bids_def put_bids_accept_def put_bids_reject_def post_confirm_payment_def
       post_release_def post_refund_def post_reviews_def put_reviews_def
       store_inv_authenticated store_inv_register store_inv_updateProfile
       store_inv_createProject store_inv_updateProject store_inv_deleteProject
       store_inv_createBid store_inv_acceptBid store_inv_rejectBid store_inv_confirmPayment
       store_inv_release store_inv_refund store_inv_createReview store_inv_updateReview)

lemma store_inv_empty: "store_inv empty_store"
  by (simp add: store_inv_def empty_store_def ids_below_def accepted_have_escrow_def
        one_accepted_def accepted_on_def)

lemma store_inv_run: "store_inv (run env requests)"
  unfolding run_def
  by (induction requests rule: rev_induct) (simp_all add: store_inv_empty store_inv_step)

text \<open>
  Claim C2. In every state the server reaches from the empty store, by any
  sequence of requests of any callers, every project has at most one bid with
  status ACCEPTED. An owner may set the status of a project back to POSTED,
  but a second acceptance on it is refused by the store: its transaction would
  repeat the key of the one the first acceptance created, and the writes of
  the accept handler are rolled back together.
\<close>

theorem at_most_one_accepted:
  "length (filter (\<lambda>b. b_projectId b = projectId \<and> b_status b = ACCEPTED)
             (bids (run env requests))) \<le> 1"
  using store_inv_run[of env requests]
  by (simp add: store_inv_def one_accepted_def accepted_on_def)

theorem at_most_one_accepted_witness:
  "length (filter (\<lambda>b. b_projectId b = 3 \<and> b_status b = ACCEPTED)
             (bids (run demo_env (demo_requests @ [AcceptBid 0 4,
                      PutProject 0 3 (set_status ''POSTED''), AcceptBid 0 5])))) \<le> 1
   \<and> map b_status (bids (run demo_env (demo_requests @ [AcceptBid 0 4,
                      PutProject 0 3 (set_status ''POSTED''), AcceptBid 0 5])))
       = [ACCEPTED, REJECTED]
   \<and> project_status_of (run demo_env (demo_requests @ [AcceptBid 0 4,
                      PutProject 0 3 (set_status ''POSTED''), AcceptBid 0 5])) 3 = Some POSTED"
proof -
  let ?s = "run demo_env (demo_requests @ [AcceptBid 0 4,
              PutProject 0 3 (set_status ''POSTED''), AcceptBid 0 5])"
  have 1: "map b_status (bids ?s) = [ACCEPTED, REJECTED]"
    by code_simp
  have 2: "project_status_of ?s 3 = Some POSTED"
    by code_simp
  from at_most_one_accepted[of 3 demo_env "demo_requests @ [AcceptBid 0 4,
         PutProject 0 3 (set_status ''POSTED''), AcceptBid 0 5]"] 1 2
  show ?thesis by simp
qed

section \<open>How a project's status moves\<close>

lemma status_same_projects:
  "projects s' = projects s \<Longrightarrow> project_status_of s' i = project_status_of s i"
  by (simp add: project_status_of_def)

lemma projects_register: "projects (snd (register env body s)) = projects s"
  by (simp add: register_def Let_def split: option.splits)

lemma projects_updateProfile: "projects (snd (updateProfile env u body s)) = projects s"
  by (simp add: updateProfile_def Let_def split: option.splits)

lemma projects_createBid: "projects (snd (createBid u body s)) = projects s"
  by (simp add: createBid_def bid_create_def Let_def split: option.splits)

lemma projects_rejectBid: "projects (snd (rejectBid u bidId s)) = projects s"
  by (simp add: rejectBid_def split: option.splits)

lemma projects_confirmPayment: "projects (snd (confirmPayment env u body s)) = projects s"
  by (simp add: confirmPayment_def transaction_create_def Let_def split: option.splits)

lemma projects_createReview: "projects (snd (createReview u body s)) = projects s"
  by (auto simp: createReview_def review_create_def update_user_rating_def Let_def
           split: option.splits if_splits)

lemma projects_updateReview: "projects (snd (updateReview u reviewId body s)) = projects s"
  by (auto simp: updateReview_def update_user_rating_def Let_def
           split: option.splits if_splits)

lemma status_createProject:
  "project_status_of s i = Some old \<Longrightarrow>
   project_status_of (snd (createProject env u body s)) i = Some old"
  by (auto simp: createProject_def project_status_of_def find_by_append Let_def
           split: option.splits)

lemma status_deleteProject:
  "project_status_of s i = Some old \<Longrightarrow>
   project_status_of (snd (deleteProject env u j s)) i = Some new \<Longrightarrow> new = old"
  by (cases "i = j")
     (auto simp: deleteProject_def project_status_of_def find_by_filter find_by_filter_same
           split: option.splits if_splits)

lemma project_updateData_status:
  "p_status (project_updateData body p)
     = (case pu_status body of
          None \<Rightarrow> p_status p
        | Some st \<Rightarrow> (case status_of_string st of None \<Rightarrow> p_status p | Some st' \<Rightarrow> st'))"
  by (cases "pu_title body"; cases "pu_description body"; cases "pu_budget body";
      cases "pu_deadline body"; cases "pu_status body";
      simp add: project_updateData_def Let_def split: option.splits)

lemma status_updateProject:
  assumes o: "project_status_of s i = Some old"
    and n: "project_status_of (snd (updateProject env u j body s)) i = Some new"
    and ne: "new \<noteq> old"
  shows "i = j \<and> (\<exists>st. pu_status body = Some st \<and> status_of_string st = Some new)"
proof -
  have k: "p_id (project_updateData body p) = p_id p" for p
    by (simp add: project_updateData_def Let_def split: option.splits)
  from o obtain z where z: "find_by p_id i (projects s) = Some z" "old = p_status z"
    by (auto simp: project_status_of_def)
  have ch: "snd (updateProject env u j body s) \<noteq> s"
    using o n ne by auto
  then have
    s': "snd (updateProject env u j body s)
           = s\<lparr>projects := update_many (\<lambda>p. p_id p = j) (project_updateData body) (projects s)\<rparr>"
    by (auto simp: updateProject_def update_by_def split: option.splits if_splits)
  have zi: "p_id z = i"
    using find_by_Some[OF z(1)] by simp
  from n have new: "new = p_status (if p_id z = j then project_updateData body z else z)"
    by (simp add: s' project_status_of_def find_by_update_many_key[of p_id, OF k] z)
  with ne z(2) have ij: "i = j" and new': "new = p_status (project_updateData body z)"
    using zi by (auto split: if_splits)
  from new' ne z(2) have "\<exists>st. pu_status body = Some st \<and> status_of_string st = Some new"
    by (auto simp: project_updateData_status split: option.splits)
  then show ?thesis
    using ij by simp
qed

lemma status_acceptBid:
  assumes o: "project_status_of s i = Some old"
    and n: "project_status_of (snd (acceptBid u bidId s)) i = Some new"
    and ne: "new \<noteq> old"
  shows "old = POSTED \<and> new = IN_PROGRESS"
proof -
  have ch: "snd (acceptBid u bidId s) \<noteq> s"
    using o n ne by auto
  then obtain bid project r s' where
    b: "find_by b_id bidId (bids s) = Some bid" and
    p: "find_by p_id (b_projectId bid) (projects s) = Some project" and
    st: "p_status project = POSTED" and
    w: "accept_writes bidId bid project s = Some (r, s')" and
    e: "snd (acceptBid u bidId s) = s'"
    by (auto simp: acceptBid_def prisma_transaction_def split: option.splits if_splits)
  obtain acceptedBid transaction where r: "r = (acceptedBid, transaction)"
    by (cases r)
  from accept_writes_Some[OF w[unfolded r] b]
  have ps: "projects s' = update_many (\<lambda>p. p_id p = b_projectId bid)
                            (\<lambda>p. p\<lparr>p_status := IN_PROGRESS\<rparr>) (projects s)"
    by simp
  from o obtain z where z: "find_by p_id i (projects s) = Some z" "old = p_status z"
    by (auto simp: project_status_of_def)
  have zi: "p_id z = i"
    using find_by_Some[OF z(1)] by simp
  from n have new: "new = p_status (if p_id z = b_projectId bid
                                    then z\<lparr>p_status := IN_PROGRESS\<rparr> else z)"
    by (simp add: e ps project_status_of_def find_by_update_many_key z)
  with ne z(2) have ib: "i = b_projectId bid" and "new = IN_PROGRESS"
    using zi by (auto split: if_splits)
  moreover from ib p z st have "old = POSTED"
    by simp
  ultimately show ?thesis by simp
qed

lemma status_release:
  assumes "project_status_of s i = Some old"
    and "project_status_of (snd (release u transactionId s)) i = Some new"
    and "new \<noteq> old"
  shows "new = PAID"
  using assms
  by (auto simp: release_def project_status_of_def update_by_Some find_by_update_many_key Let_def
           split: option.splits if_splits)

lemma status_refund:
  assumes "project_status_of s i = Some old"
    and "project_status_of (snd (refund u transactionId s)) i = Some new"
    and "new \<noteq> old"
  shows "new = CANCELLED"
  using assms
  by (auto simp: refund_def project_status_of_def update_by_Some find_by_update_many_key Let_def
           split: option.splits if_splits)

text \<open>
  The wrapper of the routes: the handler runs for the account of the caller,
  or the store is left alone.
\<close>

lemma status_authenticated:
  assumes "project_status_of s i = Some old"
    and "project_status_of (snd (authenticated s caller roles handler)) i = Some new"
    and "new \<noteq> old"
  shows "\<exists>req_user. project_status_of (snd (handler req_user)) i = Some new"
  using assms by (auto simp: authenticated_def split: option.splits if_splits)

lemma owner_sets_status:
  assumes "authenticateToken s caller = Some req_user"
    and "find_by p_id projectId (projects s) = Some project"
    and "p_clientId project = caller"
    and "status_of_string st = Some new"
  shows "project_status_of (step env (PutProject caller projectId (set_status st)) s) projectId
           = Some new"
proof -
  have k: "p_id (project_updateData body p) = p_id p" for body p
    by (simp add: project_updateData_def Let_def split: option.splits)
  have v: "valid_project_update env (set_status st)"
    using assms(4) by (simp add: valid_project_update_def set_status_def valid_deadline_def)
  have u: "u_id req_user = caller"
    using assms(1) find_by_Some[of u_id caller "users s" req_user]
    by (simp add: authenticateToken_def)
  show ?thesis
    using assms v u
    by (simp add: put_projects_def authenticated_def updateProject_def update_by_def
          project_status_of_def find_by_update_many[of p_id, OF k] project_updateData_status
          set_status_def)
qed

text \<open>
  Claim C9, as the code has it. A request changes the status of a project only
  in one of four ways: accepting a bid moves it from POSTED to IN_PROGRESS; a
  release sets it to PAID and a refund sets it to CANCELLED, whatever it was
  before; PUT /projects/:id sets it to the status the request names. No other
  request changes it. And the owner of a project can set each of the five
  statuses with PUT /projects/:id, whatever the status was before.
\<close>

theorem status_moves:
  "(project_status_of s projectId = Some old
      \<and> project_status_of (step env request s) projectId = Some new \<and> new \<noteq> old \<longrightarrow>
        (\<exists>caller bidId. request = AcceptBid caller bidId \<and> old = POSTED \<and> new = IN_PROGRESS)
      \<or> (\<exists>caller transactionId. request = Release caller transactionId \<and> new = PAID)
      \<or> (\<exists>caller transactionId. request = Refund caller transactionId \<and> new = CANCELLED)
      \<or> (\<exists>caller body st. request = PutProject caller projectId body
             \<and> pu_status body = Some st \<and> status_of_string st = Some new))
   \<and> (authenticateToken s caller = Some req_user
      \<and> find_by p_id projectId (projects s) = Some project \<and> p_clientId project = caller
      \<and> status_of_string st = Some new' \<longrightarrow>
        project_status_of (step env (PutProject caller projectId (set_status st)) s) projectId
          = Some new')"
proof (intro conjI impI)
  assume a: "project_status_of s projectId = Some old
      \<and> project_status_of (step env request s) projectId = Some new \<and> new \<noteq> old"
  then have o: "project_status_of s projectId = Some old"
    and n: "project_status_of (step env request s) projectId = Some new"
    and ne: "new \<noteq> old"
    by simp_all
  note au = status_authenticated[OF o _ ne]
  show "(\<exists>caller bidId. request = AcceptBid caller bidId \<and> old = POSTED \<and> new = IN_PROGRESS)
      \<or> (\<exists>caller transactionId. request = Release caller transactionId \<and> new = PAID)
      \<or> (\<exists>caller transactionId. request = Refund caller transactionId \<and> new = CANCELLED)
      \<or> (\<exists>caller body st. request = PutProject caller projectId body
             \<and> pu_status body = Some st \<and> status_of_string st = Some new)"
  proof (cases request)
    case (Register body)
    with o n ne show ?thesis
      by (simp add: status_same_projects[OF projects_register])
  next
    case (PutProfile caller body)
    with n au[of caller None "\<lambda>u. updateProfile env u body s"] o ne show ?thesis
      by (auto simp: put_profile_def status_same_projects[OF projects_updateProfile])
  next
    case (PostProject caller body)
    with n au[of caller "Some [CLIENT]" "\<lambda>u. createProject env u body s"]
      status_createProject[OF o] ne show ?thesis
      by (auto simp: post_projects_def)
  next
    case (PutProject caller j body)
    with n au[of caller None "\<lambda>u. updateProject env u j body s"]
    obtain u where "project_status_of (snd (updateProject env u j body s)) projectId = Some new"
      by (auto simp: put_projects_def)
    from status_updateProject[OF o this ne] PutProject show ?thesis
      by simp
  next
    case (DeleteProject caller j)
    with n au[of caller None "\<lambda>u. deleteProject env u j s"] status_deleteProject[OF o] ne
    show ?thesis
      by (auto simp: delete_projects_def)
  next
    case (PostBid caller body)
    with n au[of caller "Some [FREELANCER]" "\<lambda>u. createBid u body s"] o ne show ?thesis
      by (auto simp: post_bids_def status_same_projects[OF projects_createBid])
  next
    case (AcceptBid caller bidId)
    with n au[of caller None "\<lambda>u. acceptBid u bidId s"]
    obtain u where "project_status_of (snd (acceptBid u bidId s)) projectId = Some new"
      by (auto simp: put_bids_accept_def)
    from status_acceptBid[OF o this ne] AcceptBid show ?thesis
      by simp
  next
    case (RejectBid caller bidId)
    with n au[of caller None "\<lambda>u. rejectBid u bidId s"] o ne show ?thesis
      by (auto simp: put_bids_reject_def status_same_projects[OF projects_rejectBid])
  next
    case (ConfirmPayment caller body)
    with n au[of caller None "\<lambda>u. confirmPayment env u body s"] o ne show ?thesis
      by (auto simp: post_confirm_payment_def status_same_projects[OF projects_confirmPayment])
  next
    case (Release caller transactionId)
    with n au[of caller None "\<lambda>u. release u transactionId s"]
    obtain u where "project_status_of (snd (release u transactionId s)) projectId = Some new"
      by (auto simp: post_release_def)
    from status_release[OF o this ne] Release show ?thesis
      by simp
  next
    case (Refund caller transactionId)
    with n au[of caller None "\<lambda>u. refund u transactionId s"]
    obtain u where "project_status_of (snd (refund u transactionId s)) projectId = Some new"
      by (auto simp: post_refund_def)
    from status_refund[OF o this ne] Refund show ?thesis
      by simp
  next
    case (PostReview caller body)
    with n au[of caller None "\<lambda>u. createReview u body s"] o ne show ?thesis
      by (auto simp: post_reviews_def status_same_projects[OF projects_createReview])
  next
    case (PutReview caller reviewId body)
    with n au[of caller None "\<lambda>u. updateReview u reviewId body s"] o ne show ?thesis
      by (auto simp: put_reviews_def status_same_projects[OF projects_updateReview])
  qed
next
  assume "authenticateToken s caller = Some req_user
      \<and> find_by p_id projectId (projects s) = Some project \<and> p_clientId project = caller
      \<and> status_of_string st = Some new'"
  then show "project_status_of (step env (PutProject caller projectId (set_status st)) s) projectId
          = Some new'"
    using owner_sets_status by blast
qed

theorem status_moves_witness:
  "project_status_of demo_store 3 = Some POSTED
   \<and> project_status_of (step demo_env (AcceptBid 0 4) demo_store) 3 = Some IN_PROGRESS
   \<and> project_status_of demo_cancelled 3 = Some CANCELLED
   \<and> project_status_of (step demo_env (PutProject 0 3 (set_status ''POSTED'')) demo_cancelled) 3
       = Some POSTED
   \<and> project_status_of (step demo_env (PutProject 0 3 (set_status ''COMPLETED'')) demo_paid) 3
       = Some COMPLETED"
proof -
  have 1: "project_status_of demo_store 3 = Some POSTED"
    "project_status_of (step demo_env (AcceptBid 0 4) demo_store) 3 = Some IN_PROGRESS"
    "IN_PROGRESS \<noteq> POSTED"
    by code_simp+
  have 2: "authenticateToken demo_cancelled 0 = Some demo_ann"
    "find_by p_id 3 (projects demo_cancelled) = Some (demo_project\<lparr>p_status := CANCELLED\<rparr>)"
    "p_clientId (demo_project\<lparr>p_status := CANCELLED\<rparr>) = 0"
    "status_of_string ''POSTED'' = Some POSTED"
    "project_status_of demo_cancelled 3 = Some CANCELLED"
    by code_simp+
  have 3: "authenticateToken demo_paid 0 = Some demo_ann"
    "find_by p_id 3 (projects demo_paid) = Some (demo_project\<lparr>p_status := PAID\<rparr>)"
    "p_clientId (demo_project\<lparr>p_status := PAID\<rparr>) = 0"
    "status_of_string ''COMPLETED'' = Some COMPLETED"
    by code_simp+
  note a = status_moves[where s = demo_store and projectId = 3 and old = POSTED
             and env = demo_env and request = "AcceptBid 0 4" and new = IN_PROGRESS]
  from a 1 have e: "\<exists>caller bidId. AcceptBid 0 4 = AcceptBid caller bidId"
    by simp
  note b = status_moves[where s = demo_cancelled and caller = 0 and req_user = demo_ann
             and projectId = 3 and project = "demo_project\<lparr>p_status := CANCELLED\<rparr>"
             and st = "''POSTED''" and new' = POSTED and env = demo_env]
  from b 2 have c: "project_status_of (step demo_env (PutProject 0 3 (set_status ''POSTED''))
                       demo_cancelled) 3 = Some POSTED"
    by simp
  note b' = status_moves[where s = demo_paid and caller = 0 and req_user = demo_ann
             and projectId = 3 and project = "demo_project\<lparr>p_status := PAID\<rparr>"
             and st = "''COMPLETED''" and new' = COMPLETED and env = demo_env]
  from b' 3 have d: "project_status_of (step demo_env (PutProject 0 3 (set_status ''COMPLETED''))
                       demo_paid) 3 = Some COMPLETED"
    by simp
  from 1 2 c d show ?thesis by simp
qed

text \<open>
  Claim C9, as the specification states it, fails: the owner of a cancelled
  project sets it back to POSTED, and the owner of a paid project sets it back
  to COMPLETED. Both stores are reached from the empty one.
\<close>

theorem status_moves_backwards:
  "demo_cancelled = run demo_env (demo_requests @ [PutProject 0 3 (set_status ''CANCELLED'')])
   \<and> project_status_of demo_cancelled 3 = Some CANCELLED
   \<and> project_status_of (step demo_env (PutProject 0 3 (set_status ''POSTED'')) demo_cancelled) 3
       = Some POSTED
   \<and> \<not> one_directional CANCELLED POSTED
   \<and> demo_paid = run demo_env (demo_requests @ [AcceptBid 0 4, Release 0 6])
   \<and> project_status_of demo_paid 3 = Some PAID
   \<and> project_status_of (step demo_env (PutProject 0 3 (set_status ''COMPLETED'')) demo_paid) 3
       = Some COMPLETED
   \<and> \<not> one_directional PAID COMPLETED"
  by code_simp

section \<open>Submitting a bid\<close>

subsection \<open>Every owner is a client\<close>

lemma owner_new_user: "owner_is_client us p \<Longrightarrow> owner_is_client (us @ [u]) p"
  by (auto simp: owner_is_client_def find_by_append split: option.splits)

lemma owner_update_users:
  assumes "\<And>x. u_id (f x) = u_id x" "\<And>x. u_role (f x) = u_role x"
  shows "owner_is_client (update_many P f us) p = owner_is_client us p"
  by (auto simp: owner_is_client_def find_by_update_many_key[of u_id f, OF assms(1)] assms(2)
           split: option.splits)

lemma owners_new_user:
  "list_all (owner_is_client us) ps \<Longrightarrow> list_all (owner_is_client (us @ [u])) ps"
  by (simp add: list_all_iff owner_new_user)

lemma owners_update_users:
  assumes "list_all (owner_is_client us) ps"
    and "\<And>x. u_id (f x) = u_id x" "\<And>x. u_role (f x) = u_role x"
  shows "list_all (owner_is_client (update_many P f us)) ps"
  using assms(1) by (simp add: list_all_iff owner_update_users[of f, OF assms(2,3)])

lemma owners_update_projects:
  assumes "list_all (owner_is_client us) ps" "\<And>x. p_clientId (f x) = p_clientId x"
  shows "list_all (owner_is_client us) (update_many P f ps)"
  using assms by (auto simp: list_all_iff update_many_def owner_is_client_def)

lemma owners_filter_projects:
  "list_all (owner_is_client us) ps \<Longrightarrow> list_all (owner_is_client us) (filter Q ps)"
  by (simp add: list_all_iff)

lemma owners_update_user_rating:
  "owners_are_clients s \<Longrightarrow> update_user_rating i s = Some s' \<Longrightarrow> owners_are_clients s'"
  by (auto simp: update_user_rating_def owners_are_clients_def update_by_Some Let_def
           split: option.splits intro!: owners_update_users)

lemma owners_register: "owners_are_clients s \<Longrightarrow> owners_are_clients (snd (register env body s))"
  by (simp add: register_def owners_are_clients_def Let_def owners_new_user split: option.splits)

lemma owners_updateProfile:
  "owners_are_clients s \<Longrightarrow> owners_are_clients (snd (updateProfile env u body s))"
  by (auto simp: updateProfile_def owners_are_clients_def update_by_Some Let_def
           split: option.splits intro!: owners_update_users)

lemma owners_post_projects:
  assumes "owners_are_clients s"
  shows "owners_are_clients (snd (post_projects env caller body s))"
proof (cases "authenticateToken s caller")
  case None
  with assms show ?thesis
    by (simp add: post_projects_def authenticated_def)
next
  case (Some req_user)
  then have f: "find_by u_id (u_id req_user) (users s) = Some req_user"
    using find_by_Some[of u_id caller "users s" req_user] by (simp add: authenticateToken_def)
  show ?thesis
  proof (cases "u_role req_user = CLIENT")
    case True
    have "owner_is_client (users s) p" if "p_clientId p = u_id req_user" for p
      using that f True by (simp add: owner_is_client_def)
    with assms Some True show ?thesis
      by (auto simp: post_projects_def authenticated_def requireRole_def createProject_def
            owners_are_clients_def Let_def split: option.splits)
  next
    case False
    with assms Some show ?thesis
      by (simp add: post_projects_def authenticated_def requireRole_def)
  qed
qed

lemma owners_updateProject:
  "owners_are_clients s \<Longrightarrow> owners_are_clients (snd (updateProject env u projectId body s))"
  by (auto simp: updateProject_def owners_are_clients_def update_by_Some project_updateData_keys
           split: option.splits intro!: owners_update_projects)

lemma owners_deleteProject:
  "owners_are_clients s \<Longrightarrow> owners_are_clients (snd (deleteProject env u projectId s))"
  by (simp add: deleteProject_def owners_are_clients_def owners_filter_projects
           split: option.splits)

lemma owners_same:
  "owners_are_clients s \<Longrightarrow> projects s' = projects s \<Longrightarrow> users s' = users s
     \<Longrightarrow> owners_are_clients s'"
  by (simp add: owners_are_clients_def)

lemma users_createBid: "users (snd (createBid u body s)) = users s"
  by (simp add: createBid_def bid_create_def Let_def split: option.splits)

lemma users_rejectBid: "users (snd (rejectBid u bidId s)) = users s"
  by (simp add: rejectBid_def split: option.splits)

lemma users_confirmPayment: "users (snd (confirmPayment env u body s)) = users s"
  by (simp add: confirmPayment_def transaction_create_def Let_def split: option.splits)

lemma owners_acceptBid:
  assumes "owners_are_clients s"
  shows "owners_are_clients (snd (acceptBid u bidId s))"
proof (cases "snd (acceptBid u bidId s) = s")
  case True
  with assms show ?thesis by simp
next
  case False
  then obtain bid project r s' where
    b: "find_by b_id bidId (bids s) = Some bid" and
    w: "accept_writes bidId bid project s = Some (r, s')" and
    e: "snd (acceptBid u bidId s) = s'"
    by (auto simp: acceptBid_def prisma_transaction_def split: option.splits if_splits)
  obtain acceptedBid transaction where r: "r = (acceptedBid, transaction)"
    by (cases r)
  from accept_writes_Some[OF w[unfolded r] b]
  have "projects s' = update_many (\<lambda>p. p_id p = b_projectId bid)
                        (\<lambda>p. p\<lparr>p_status := IN_PROGRESS\<rparr>) (projects s)"
    and "users s' = users s"
    by simp_all
  with assms show ?thesis
    by (simp add: e owners_are_clients_def owners_update_projects)
qed

lemma owners_release:
  "owners_are_clients s \<Longrightarrow> owners_are_clients (snd (release u transactionId s))"
  by (auto simp: release_def owners_are_clients_def update_by_Some Let_def
           split: option.splits intro!: owners_update_projects)

lemma owners_refund:
  "owners_are_clients s \<Longrightarrow> owners_are_clients (snd (refund u transactionId s))"
  by (auto simp: refund_def owners_are_clients_def update_by_Some Let_def
           split: option.splits intro!: owners_update_projects)

lemma owners_review_create:
  "owners_are_clients s \<Longrightarrow> review_create s i j k r c = Some (review, s')
     \<Longrightarrow> owners_are_clients s'"
  by (auto simp: review_create_def owners_are_clients_def Let_def split: if_splits)

lemma owners_createReview:
  "owners_are_clients s \<Longrightarrow> owners_are_clients (snd (createReview u body s))"
  by (auto simp: createReview_def Let_def split: option.splits if_splits
           dest: owners_review_create owners_update_user_rating)

lemma owners_updateReview:
  assumes "owners_are_clients s"
  shows "owners_are_clients (snd (updateReview u reviewId body s))"
proof -
  have "owners_are_clients (s\<lparr>reviews := rs\<rparr>)" for rs
    using assms by (simp add: owners_are_clients_def)
  with assms show ?thesis
    by (auto simp: updateReview_def Let_def split: option.splits if_splits
             dest: owners_update_user_rating)
qed

lemma owners_step: "owners_are_clients s \<Longrightarrow> owners_are_clients (step env request s)"
proof (cases request)
  case (PostProject caller body)
  assume "owners_are_clients s"
  with PostProject show ?thesis
    by (simp add: owners_post_projects)
qed (simp_all add: put_profile_def put_projects_def delete_projects_def
       post_bids_def put_bids_accept_def put_bids_reject_def post_confirm_payment_def
       post_release_def post_refund_def post_reviews_def put_reviews_def
       authenticated_cases owners_register owners_updateProfile owners_updateProject
       owners_deleteProject owners_acceptBid owners_release owners_refund
       owners_createReview owners_updateReview
       owners_same[OF _ projects_createBid users_createBid]
       owners_same[OF _ projects_rejectBid users_rejectBid]
       owners_same[OF _ projects_confirmPayment users_confirmPayment])

lemma owners_empty: "owners_are_clients empty_store"
  by (simp add: owners_are_clients_def empty_store_def)

lemma owners_run: "owners_are_clients (run env requests)"
  unfolding run_def
  by (induction requests rule: rev_induct) (simp_all add: owners_step owners_empty)

subsection \<open>The handler and the route\<close>

lemma createBid_cases:
  assumes valid: "bb_projectId body = Some projectId" "bb_bidAmount body = Some bidAmount"
      "1 \<le> bidAmount" "bb_estimatedTime body \<noteq> []"
    and auth: "user_exists s (u_id req_user)"
    and proj: "find_by p_id projectId (projects s) = Some project"
  shows "(p_status project \<noteq> POSTED \<or> p_clientId project = u_id req_user
            \<or> (\<exists>b\<in>set (bids s). b_projectId b = projectId \<and> b_freelancerId b = u_id req_user)
          \<longrightarrow> is_conflict (fst (createBid req_user body s))
              \<and> http_status (fst (createBid req_user body s)) = 400
              \<and> snd (createBid req_user body s) = s)
       \<and> (\<not> (p_status project \<noteq> POSTED \<or> p_clientId project = u_id req_user
            \<or> (\<exists>b\<in>set (bids s). b_projectId b = projectId \<and> b_freelancerId b = u_id req_user))
          \<longrightarrow> (\<exists>bid. createBid req_user body s
                        = (Json 201 bid, s\<lparr>bids := bids s @ [bid], next_id := Suc (next_id s)\<rparr>)
                 \<and> b_status bid = PENDING \<and> b_projectId bid = projectId
                 \<and> b_freelancerId bid = u_id req_user))"
proof -
  have pe: "project_exists s projectId"
    using proj by (simp add: project_exists_def)
  show ?thesis
    using valid auth proj pe
    by (auto simp: createBid_def bid_create_def find_None_iff default_bid_status_def Let_def)
qed

lemma post_bids_role_guard:
  assumes "authenticateToken s caller = Some req_user" "u_role req_user \<noteq> FREELANCER"
  shows "post_bids caller body s = (Error 403 ''Insufficient permissions'', s)"
  using assms by (simp add: post_bids_def authenticated_def requireRole_def)

lemma post_bids_freelancer:
  assumes "authenticateToken s caller = Some req_user" "u_role req_user = FREELANCER"
  shows "post_bids caller body s = createBid req_user body s"
    and "u_id req_user = caller" and "user_exists s (u_id req_user)"
proof -
  from assms(1) have f: "find_by u_id caller (users s) = Some req_user"
    by (simp add: authenticateToken_def)
  show "post_bids caller body s = createBid req_user body s"
    using assms by (simp add: post_bids_def authenticated_def requireRole_def)
  show i: "u_id req_user = caller"
    using find_by_Some[OF f] by simp
  show "user_exists s (u_id req_user)"
    using f i by (simp add: user_exists_def)
qed

lemma post_bids_owner:
  assumes "project \<in> set (projects (run env requests))" "p_clientId project = caller"
  shows "post_bids caller body (run env requests)
           = (Error 403 ''Insufficient permissions'', run env requests)"
proof -
  from owners_run[of env requests] assms
  obtain u where "find_by u_id caller (users (run env requests)) = Some u" "u_role u = CLIENT"
    by (auto simp: owners_are_clients_def list_all_iff owner_is_client_def split: option.splits)
  then show ?thesis
    by (intro post_bids_role_guard[where req_user = u]) (simp_all add: authenticateToken_def)
qed

text \<open>
  Claim C3, as the code has it. POST /bids runs the role guard before the
  handler: an authenticated caller who is not a FREELANCER is refused with 403
  and the store is untouched. The owner of a project is a CLIENT in every
  store the server reaches, so the owner who bids on the own project gets that
  403, whatever the request. For a FREELANCER whose request the validators
  accept, on a project that exists, the call fails with a Conflict (400, the
  store untouched) if the project's status is not POSTED, or the caller
  already has a bid on the project, or owns it; otherwise it succeeds, and the
  bid it returns and appends to the bids is PENDING.
\<close>

theorem post_bids_outcome:
  "(authenticateToken s caller = Some req_user \<and> u_role req_user \<noteq> FREELANCER \<longrightarrow>
       is_forbidden (fst (post_bids caller body s))
     \<and> http_status (fst (post_bids caller body s)) = 403
     \<and> snd (post_bids caller body s) = s)
   \<and> (\<forall>project\<in>set (projects (run env requests)). p_clientId project = caller \<longrightarrow>
       is_forbidden (fst (post_bids caller body (run env requests)))
     \<and> http_status (fst (post_bids caller body (run env requests))) = 403
     \<and> snd (post_bids caller body (run env requests)) = run env requests)
   \<and> (authenticateToken s caller = Some req_user \<and> u_role req_user = FREELANCER
       \<and> bb_projectId body = Some projectId \<and> bb_bidAmount body = Some bidAmount
       \<and> 1 \<le> bidAmount \<and> bb_estimatedTime body \<noteq> []
       \<and> find_by p_id projectId (projects s) = Some project \<longrightarrow>
         (p_status project \<noteq> POSTED \<or> p_clientId project = caller
            \<or> (\<exists>b\<in>set (bids s). b_projectId b = projectId \<and> b_freelancerId b = caller)
          \<longrightarrow> is_conflict (fst (post_bids caller body s))
              \<and> http_status (fst (post_bids caller body s)) = 400
              \<and> snd (post_bids caller body s) = s)
       \<and> (\<not> (p_status project \<noteq> POSTED \<or> p_clientId project = caller
            \<or> (\<exists>b\<in>set (bids s). b_projectId b = projectId \<and> b_freelancerId b = caller))
          \<longrightarrow> (\<exists>bid. post_bids caller body s
                        = (Json 201 bid, s\<lparr>bids := bids s @ [bid], next_id := Suc (next_id s)\<rparr>)
                 \<and> b_status bid = PENDING \<and> b_projectId bid = projectId
                 \<and> b_freelancerId bid = caller)))"
proof (intro conjI ballI impI)
  assume a: "authenticateToken s caller = Some req_user \<and> u_role req_user \<noteq> FREELANCER"
  then have e: "post_bids caller body s = (Error 403 ''Insufficient permissions'', s)"
    using post_bids_role_guard by blast
  show "is_forbidden (fst (post_bids caller body s))"
    and "http_status (fst (post_bids caller body s)) = 403"
    and "snd (post_bids caller body s) = s"
    by (simp_all add: e)
next
  fix project
  assume "project \<in> set (projects (run env requests))" "p_clientId project = caller"
  note e = post_bids_owner[OF this, of body]
  show "is_forbidden (fst (post_bids caller body (run env requests)))"
    and "http_status (fst (post_bids caller body (run env requests))) = 403"
    and "snd (post_bids caller body (run env requests)) = run env requests"
    by (simp_all add: e)
next
  assume a: "authenticateToken s caller = Some req_user \<and> u_role req_user = FREELANCER
       \<and> bb_projectId body = Some projectId \<and> bb_bidAmount body = Some bidAmount
       \<and> 1 \<le> bidAmount \<and> bb_estimatedTime body \<noteq> []
       \<and> find_by p_id projectId (projects s) = Some project"
  then have au: "authenticateToken s caller = Some req_user" "u_role req_user = FREELANCER"
    and v: "bb_projectId body = Some projectId" "bb_bidAmount body = Some bidAmount"
      "1 \<le> bidAmount" "bb_estimatedTime body \<noteq> []"
    and p: "find_by p_id projectId (projects s) = Some project"
    by simp_all
  note f = post_bids_freelancer[OF au]
  note c = createBid_cases[OF v f(3) p]
  {
    assume "p_status project \<noteq> POSTED \<or> p_clientId project = caller
            \<or> (\<exists>b\<in>set (bids s). b_projectId b = projectId \<and> b_freelancerId b = caller)"
    with c f(2) show "is_conflict (fst (post_bids caller body s))"
      and "http_status (fst (post_bids caller body s)) = 400"
      and "snd (post_bids caller body s) = s"
      by (simp_all add: f(1))
  }
  {
    assume "\<not> (p_status project \<noteq> POSTED \<or> p_clientId project = caller
            \<or> (\<exists>b\<in>set (bids s). b_projectId b = projectId \<and> b_freelancerId b = caller))"
    with c f(2) show "\<exists>bid. post_bids caller body s
                        = (Json 201 bid, s\<lparr>bids := bids s @ [bid], next_id := Suc (next_id s)\<rparr>)
                 \<and> b_status bid = PENDING \<and> b_projectId bid = projectId
                 \<and> b_freelancerId bid = caller"
      by (simp add: f(1))
  }
qed

theorem post_bids_outcome_witness:
  "is_forbidden (fst (post_bids 0 demo_bid_body (run demo_env (take 4 demo_requests))))
   \<and> snd (post_bids 0 demo_bid_body (run demo_env (take 4 demo_requests)))
       = run demo_env (take 4 demo_requests)
   \<and> is_conflict (fst (post_bids 2 demo_bid_body demo_store))
   \<and> snd (post_bids 2 demo_bid_body demo_store) = demo_store
   \<and> is_conflict (fst (post_bids 2 demo_bid_body demo_accepted))
   \<and> succeeded (fst (post_bids 2 demo_bid_body (run demo_env (take 5 demo_requests))))
   \<and> snd (post_bids 2 demo_bid_body (run demo_env (take 5 demo_requests))) = demo_store"
proof -
  let ?s4 = "run demo_env (take 4 demo_requests)"
  let ?s5 = "run demo_env (take 5 demo_requests)"
  have v: "bb_projectId demo_bid_body = Some 3" "bb_bidAmount demo_bid_body = Some 480"
      "(1::rat) \<le> 480" "bb_estimatedTime demo_bid_body \<noteq> []"
    by (simp_all add: demo_bid_body_def)
  have 1: "authenticateToken ?s4 0 = Some demo_ann" "u_role demo_ann \<noteq> FREELANCER"
    "demo_project \<in> set (projects ?s4)" "p_clientId demo_project = 0"
    by code_simp+
  have 2: "authenticateToken demo_store 2 = Some demo_cat" "u_role demo_cat = FREELANCER"
    "find_by p_id 3 (projects demo_store) = Some demo_project"
    "list_ex (\<lambda>b. b_projectId b = 3 \<and> b_freelancerId b = 2) (bids demo_store)"
    by code_simp+
  have 3: "authenticateToken demo_accepted 2 = Some demo_cat"
    "find_by p_id 3 (projects demo_accepted) = Some (demo_project\<lparr>p_status := IN_PROGRESS\<rparr>)"
    by code_simp+
  have 4: "authenticateToken ?s5 2 = Some demo_cat"
    "find_by p_id 3 (projects ?s5) = Some demo_project"
    "\<not> list_ex (\<lambda>b. b_projectId b = 3 \<and> b_freelancerId b = 2) (bids ?s5)"
    "p_clientId demo_project \<noteq> 2" "p_status demo_project = POSTED"
    by code_simp+
  note a = post_bids_outcome[where s = ?s4 and caller = 0 and req_user = demo_ann
             and body = demo_bid_body and env = demo_env and requests = "take 4 demo_requests"]
  from a 1(1,2) have c1: "is_forbidden (fst (post_bids 0 demo_bid_body ?s4))"
    by simp
  from a 1(3,4) have c2: "snd (post_bids 0 demo_bid_body ?s4) = ?s4"
    by blast
  note b = post_bids_outcome[where s = demo_store and caller = 2 and req_user = demo_cat
             and body = demo_bid_body and projectId = 3 and bidAmount = 480
             and env = demo_env and requests = "[]"
             and project = demo_project]
  from b v 2 have c3: "is_conflict (fst (post_bids 2 demo_bid_body demo_store))
                       \<and> snd (post_bids 2 demo_bid_body demo_store) = demo_store"
    by (simp add: list_ex_iff)
  note c = post_bids_outcome[where s = demo_accepted and caller = 2 and req_user = demo_cat
             and body = demo_bid_body and projectId = 3 and bidAmount = 480
             and env = demo_env and requests = "[]"
             and project = "demo_project\<lparr>p_status := IN_PROGRESS\<rparr>"]
  from c v 2(2) 3 have c4: "is_conflict (fst (post_bids 2 demo_bid_body demo_accepted))"
    by simp
  note d = post_bids_outcome[where s = ?s5 and caller = 2 and req_user = demo_cat
             and body = demo_bid_body and projectId = 3 and bidAmount = 480
             and env = demo_env and requests = "[]"
             and project = demo_project]
  have "\<not> (p_status demo_project \<noteq> POSTED \<or> p_clientId demo_project = 2
            \<or> (\<exists>b\<in>set (bids ?s5). b_projectId b = 3 \<and> b_freelancerId b = 2))"
    using 4(3,4,5) by (simp add: list_ex_iff)
  with d v 2(2) 4(1,2) have "\<exists>bid. post_bids 2 demo_bid_body ?s5
      = (Json 201 bid, ?s5\<lparr>bids := bids ?s5 @ [bid], next_id := Suc (next_id ?s5)\<rparr>)"
    by blast
  then have c5: "succeeded (fst (post_bids 2 demo_bid_body ?s5))"
    by auto
  have c6: "snd (post_bids 2 demo_bid_body ?s5) = demo_store"
    by code_simp
  from c1 c2 c3 c4 c5 c6 show ?thesis by simp
qed

text \<open>
  Claim C3, as the specification states it, fails: the owner of a POSTED
  project who bids on it is refused by the role guard with 403, not with the
  Conflict (400) of the handler. The store is reached from the empty one.
\<close>

theorem post_bids_owner_forbidden:
  "map_option p_clientId (find_by p_id 3 (projects (run demo_env (take 4 demo_requests))))
     = Some 0
   \<and> bb_projectId demo_bid_body = Some 3
   \<and> http_status (fst (post_bids 0 demo_bid_body (run demo_env (take 4 demo_requests)))) = 403
   \<and> \<not> is_conflict (fst (post_bids 0 demo_bid_body (run demo_env (take 4 demo_requests))))
   \<and> \<not> succeeded (fst (post_bids 0 demo_bid_body (run demo_env (take 4 demo_requests))))"
  by code_simp

end
